theory Spec2Isabelle
  imports Complex_Main "HOL-Library.Word"
begin

section \<open>The GGUF bridge: conversion context, format detection, dispatch\<close>

text \<open>
  A shallow embedding of \<^verbatim>\<open>gguf_bridge.cpp\<close> and \<^verbatim>\<open>gguf_bridge.hpp\<close>.

  \<^item> Pointers are values of \<open>cptr\<close>: the null pointer, a pointer to a string literal in
    static storage, or the address of a heap cell. A cell holds a C string, an array
    of string pointers (the metadata override list) or a context. The heap is a list of cells; an
    allocation appends a cell, so its address is new, and \<^verbatim>\<open>free\<close>/\<^verbatim>\<open>delete\<close> empties
    the cell. Reading a C string through a null, dangling or ill-typed pointer is
    undefined behaviour and is the result \<open>Fault\<close>.
  \<^item> The thread-local \<^verbatim>\<open>g_last_error\<close> and \<^verbatim>\<open>format_str\<close>, and the sequence of calls
    that leave the bridge (the two callbacks, the llama.cpp runtime, \<^verbatim>\<open>system\<close>), are
    fields of the record \<open>world\<close>.
  \<^item> What the bridge asks of its surroundings (file status, file contents, the exit
    status of the spawned process, the result of the quantize call) is the record
    \<open>env\<close>. The bridge calls the throwing overloads of \<^verbatim>\<open>std::filesystem\<close>:
    \<^verbatim>\<open>fs::exists\<close> answers true or false, or raises \<^verbatim>\<open>filesystem_error\<close> when the
    status of the path cannot be read (a name that is too long, a directory that may not
    be searched). \<^verbatim>\<open>fs::is_directory\<close> and \<^verbatim>\<open>fs::is_regular_file\<close> are predicates.
    Outside a \<^verbatim>\<open>try\<close> block the bridge asks \<^verbatim>\<open>fs::is_directory\<close> only of the input
    path, after \<^verbatim>\<open>fs::exists\<close> has answered for that path in the same file system, so
    its status can be read. Inside the \<^verbatim>\<open>try\<close> blocks of \<^verbatim>\<open>gguf_validate_input\<close> and
    \<^verbatim>\<open>gguf_convert\<close>, a path whose status cannot be read is outside this model.
  \<^item> A C++ exception is the result \<open>Raise e\<close>.
  \<^item> The \<^verbatim>\<open>float\<close> progress values are only stored, passed on and read back, never
    computed with; they are the reals that the source's literals are written as.
  \<^item> The model is sequential: one thread calls the API.
\<close>

subsection \<open>Pointers, results, error codes\<close>

type_synonym addr = nat

datatype cptr = nullptr | static_ptr string | heap_ptr addr

datatype exn =
    invalid_argument string
  | out_of_range string
  | filesystem_error string
  | other_exception string

fun what :: "exn \<Rightarrow> string" where
  "what (invalid_argument m) = m"
| "what (out_of_range m) = m"
| "what (filesystem_error m) = m"
| "what (other_exception m) = m"

datatype 'a result = Return 'a | Raise exn | Fault

datatype gguf_error_code_t =
    GGUF_SUCCESS
  | GGUF_ERROR_INVALID_ARGS
  | GGUF_ERROR_FILE_NOT_FOUND
  | GGUF_ERROR_INVALID_FORMAT
  | GGUF_ERROR_CONVERSION_FAILED
  | GGUF_ERROR_OUT_OF_MEMORY
  | GGUF_ERROR_CANCELLED
  | GGUF_ERROR_UNSUPPORTED_ARCH
  | GGUF_ERROR_INVALID_QUANTIZATION
  | GGUF_ERROR_IO_ERROR
  | GGUF_ERROR_UNKNOWN

fun error_code_value :: "gguf_error_code_t \<Rightarrow> int" where
  "error_code_value GGUF_SUCCESS = 0"
| "error_code_value GGUF_ERROR_INVALID_ARGS = - 1"
| "error_code_value GGUF_ERROR_FILE_NOT_FOUND = - 2"
| "error_code_value GGUF_ERROR_INVALID_FORMAT = - 3"
| "error_code_value GGUF_ERROR_CONVERSION_FAILED = - 4"
| "error_code_value GGUF_ERROR_OUT_OF_MEMORY = - 5"
| "error_code_value GGUF_ERROR_CANCELLED = - 6"
| "error_code_value GGUF_ERROR_UNSUPPORTED_ARCH = - 7"
| "error_code_value GGUF_ERROR_INVALID_QUANTIZATION = - 8"
| "error_code_value GGUF_ERROR_IO_ERROR = - 9"
| "error_code_value GGUF_ERROR_UNKNOWN = - 99"

subsection \<open>The structs of the header\<close>

record gguf_conversion_params_t =
  input_path :: cptr
  output_path :: cptr
  model_type :: cptr
  quantization :: cptr
  vocab_only :: int
  use_mmap :: int
  num_threads :: int
  vocab_type :: cptr
  pad_vocab :: int
  metadata_overrides :: cptr
  progress_cb :: cptr
  log_cb :: cptr
  user_data :: cptr

text \<open>
  \<^verbatim>\<open>gguf_model_info_t\<close>. The \<^verbatim>\<open>char\<close> arrays hold C strings; the three whose names
  the parameter struct also uses carry the prefix \<open>info_\<close>.
\<close>

record gguf_model_info_t =
  info_model_type :: string
  info_architecture :: string
  parameter_count :: "64 word"
  num_layers :: "32 word"
  hidden_size :: "32 word"
  vocab_size :: "32 word"
  context_length :: "32 word"
  info_quantization :: string
  file_size :: "64 word"

text \<open>\<^verbatim>\<open>struct gguf_conversion_ctx\<close>; its constructor sets progress 0 and cancelled false.\<close>

record gguf_conversion_ctx =
  params :: gguf_conversion_params_t
  progress :: real
  cancelled :: bool
  current_stage :: string

definition new_ctx :: gguf_conversion_ctx where
  "new_ctx =
     \<lparr>params = \<lparr>input_path = nullptr, output_path = nullptr, model_type = nullptr,
                quantization = nullptr, vocab_only = 0, use_mmap = 0, num_threads = 0,
                vocab_type = nullptr, pad_vocab = 0, metadata_overrides = nullptr,
                progress_cb = nullptr, log_cb = nullptr, user_data = nullptr\<rparr>,
      progress = 0, cancelled = False, current_stage = []\<rparr>"

subsection \<open>The backend's format types, the heap, the world\<close>

text \<open>The members of llama.cpp's \<^verbatim>\<open>enum llama_ftype\<close> that the bridge names.\<close>

datatype llama_ftype =
    LLAMA_FTYPE_ALL_F32
  | LLAMA_FTYPE_MOSTLY_F16
  | LLAMA_FTYPE_MOSTLY_Q8_0
  | LLAMA_FTYPE_MOSTLY_Q4_0
  | LLAMA_FTYPE_MOSTLY_Q4_1
  | LLAMA_FTYPE_MOSTLY_Q5_0
  | LLAMA_FTYPE_MOSTLY_Q5_1
  | LLAMA_FTYPE_MOSTLY_Q2_K
  | LLAMA_FTYPE_MOSTLY_Q3_K_S
  | LLAMA_FTYPE_MOSTLY_Q3_K_M
  | LLAMA_FTYPE_MOSTLY_Q3_K_L
  | LLAMA_FTYPE_MOSTLY_Q4_K_S
  | LLAMA_FTYPE_MOSTLY_Q4_K_M
  | LLAMA_FTYPE_MOSTLY_Q5_K_S
  | LLAMA_FTYPE_MOSTLY_Q5_K_M
  | LLAMA_FTYPE_MOSTLY_Q6_K

datatype obj = CStr string | StrArray "cptr list" | Ctx gguf_conversion_ctx

type_synonym heap = "obj option list"

text \<open>
  The calls that leave the bridge, in order. A callback event carries the arguments the
  callback receives; the quantize event carries the two paths and the \<^verbatim>\<open>ftype\<close> and
  \<^verbatim>\<open>nthread\<close> fields of the parameter struct.
\<close>

datatype event =
    progress_cb_call real "string option" cptr
  | log_cb_call int string cptr
  | llama_backend_init
  | llama_backend_free
  | system_call string
  | llama_model_quantize_call string string llama_ftype int

record world =
  heap :: heap
  last_error :: string
  format_str :: string
  trace :: "event list"

record env =
  fs_exists :: "string \<Rightarrow> exn + bool"
  fs_is_directory :: "string \<Rightarrow> bool"
  fs_is_regular_file :: "string \<Rightarrow> bool"
  fs_read_lines :: "string \<Rightarrow> string list option"
  fs_read_bytes :: "string \<Rightarrow> string option"
  fs_file_size :: "string \<Rightarrow> exn + nat"
  fs_walk :: "string \<Rightarrow> exn + string list"
  system_result :: "string \<Rightarrow> int"
  quantize_result :: "string \<Rightarrow> string \<Rightarrow> llama_ftype \<Rightarrow> int \<Rightarrow> exn + nat"
  source_dir :: string

text \<open>
  \<open>fs_read_lines p\<close> is what \<^verbatim>\<open>std::getline\<close> yields line by line from the file at
  \<open>p\<close> (\<open>None\<close>: the stream does not open); \<open>fs_walk p\<close> is the entries of the
  recursive directory iterator; \<open>source_dir\<close> is the compile-time value of
  \<^verbatim>\<open>fs::path(__FILE__).parent_path().string()\<close>.
\<close>

definition lookup :: "heap \<Rightarrow> addr \<Rightarrow> obj option" where
  "lookup h a = (if a < length h then h ! a else None)"

fun cstr :: "heap \<Rightarrow> cptr \<Rightarrow> string option" where
  "cstr h nullptr = None"
| "cstr h (static_ptr s) = Some s"
| "cstr h (heap_ptr a) = (case lookup h a of Some (CStr s) \<Rightarrow> Some s | _ \<Rightarrow> None)"

fun ctx_at :: "heap \<Rightarrow> cptr \<Rightarrow> gguf_conversion_ctx option" where
  "ctx_at h (heap_ptr a) = (case lookup h a of Some (Ctx c) \<Rightarrow> Some c | _ \<Rightarrow> None)"
| "ctx_at h _ = None"

definition store_ctx :: "cptr \<Rightarrow> gguf_conversion_ctx \<Rightarrow> world \<Rightarrow> world" where
  "store_ctx p c w =
     (case p of heap_ptr a \<Rightarrow> w\<lparr>heap := list_update (heap w) a (Some (Ctx c))\<rparr> | _ \<Rightarrow> w)"

definition emit :: "event \<Rightarrow> world \<Rightarrow> world" where
  "emit e w = w\<lparr>trace := trace w @ [e]\<rparr>"

text \<open>The events that a call added to the trace.\<close>

definition emitted :: "world \<Rightarrow> world \<Rightarrow> event list" where
  "emitted w w' = drop (length (trace w)) (trace w')"

fun is_backend_event :: "event \<Rightarrow> bool" where
  "is_backend_event llama_backend_init = True"
| "is_backend_event llama_backend_free = True"
| "is_backend_event (system_call _) = True"
| "is_backend_event (llama_model_quantize_call _ _ _ _) = True"
| "is_backend_event _ = False"

fun progress_of :: "event \<Rightarrow> (real \<times> string option) option" where
  "progress_of (progress_cb_call p stage _) = Some (p, stage)"
| "progress_of _ = None"

subsection \<open>Strings and paths\<close>

text \<open>\<^verbatim>\<open>std::to_string\<close> on an unsigned and on a signed integer.\<close>

definition digit_char :: "nat \<Rightarrow> char" where
  "digit_char d = char_of (48 + d)"

function string_of_nat :: "nat \<Rightarrow> string" where
  "string_of_nat n =
     (if n < 10 then [digit_char n] else string_of_nat (n div 10) @ [digit_char (n mod 10)])"
  by pat_completeness auto
termination
  by (relation "measure id") auto

definition to_string :: "int \<Rightarrow> string" where
  "to_string i = (if i < 0 then CHR ''-'' # string_of_nat (nat (- i)) else string_of_nat (nat i))"

text \<open>
  \<^verbatim>\<open>std::filesystem::path\<close> on a POSIX system, after the C++ standard: \<open>filename\<close> is
  what follows the last separator; \<open>extension\<close> starts at the last period of the
  filename, and is empty when the filename has no period, when its only period is its
  first character, and for the filenames dot and dot-dot; \<open>path_append\<close> is
  \<^verbatim>\<open>operator/\<close> with a relative right operand.
\<close>

definition filename :: "string \<Rightarrow> string" where
  "filename p = rev (takeWhile (\<lambda>c. c \<noteq> CHR ''/'') (rev p))"

definition extension :: "string \<Rightarrow> string" where
  "extension p =
     (let f = filename p;
          e = rev (takeWhile (\<lambda>c. c \<noteq> CHR ''.'') (rev f))
      in if CHR ''.'' \<notin> set f \<or> f = ''.'' \<or> f = ''..'' \<or> Suc (length e) = length f
         then [] else CHR ''.'' # e)"

definition parent_path :: "string \<Rightarrow> string" where
  "parent_path p =
     (let d = rev (dropWhile (\<lambda>c. c \<noteq> CHR ''/'') (rev p));
          d' = rev (dropWhile (\<lambda>c. c = CHR ''/'') (rev d))
      in if d \<noteq> [] \<and> d' = [] then ''/'' else d')"

definition path_append :: "string \<Rightarrow> string \<Rightarrow> string" where
  "path_append p n =
     (if p = [] then n else if last p = CHR ''/'' then p @ n else p @ ''/'' @ n)"

subsection \<open>The helpers of the bridge\<close>

definition GGUF_BRIDGE_VERSION :: string where
  "GGUF_BRIDGE_VERSION = ''1.0.0''"

text \<open>The array \<^verbatim>\<open>QUANTIZATION_TYPES\<close>, without its terminating null.\<close>

definition QUANTIZATION_TYPES :: "string list" where
  "QUANTIZATION_TYPES =
     [''f32'', ''f16'',
      ''q4_0'', ''q4_1'', ''q5_0'', ''q5_1'',
      ''q8_0'', ''q8_1'',
      ''q2_k'', ''q3_k_s'', ''q3_k_m'', ''q3_k_l'',
      ''q4_k_s'', ''q4_k_m'',
      ''q5_k_s'', ''q5_k_m'',
      ''q6_k'']"

definition set_error :: "string \<Rightarrow> world \<Rightarrow> world" where
  "set_error msg w = w\<lparr>last_error := msg\<rparr>"

text \<open>
  The member functions of the context work on the \<^verbatim>\<open>this\<close> object, here the pair of the
  context's value and the world; the API functions load the context from the heap and
  store it back.
\<close>

definition set_progress ::
  "real \<Rightarrow> string option \<Rightarrow> gguf_conversion_ctx \<times> world \<Rightarrow> gguf_conversion_ctx \<times> world" where
  "set_progress p stage s =
     (let c = fst s; w = snd s;
          c1 = c\<lparr>progress := p\<rparr>;
          c2 = (case stage of Some st \<Rightarrow> c1\<lparr>current_stage := st\<rparr> | None \<Rightarrow> c1)
      in if progress_cb (params c2) \<noteq> nullptr
         then (c2, emit (progress_cb_call p stage (user_data (params c2))) w)
         else (c2, w))"

definition ctx_log :: "gguf_conversion_ctx \<Rightarrow> int \<Rightarrow> string \<Rightarrow> world \<Rightarrow> world" where
  "ctx_log c level message w =
     (if log_cb (params c) \<noteq> nullptr
      then emit (log_cb_call level message (user_data (params c))) w
      else w)"

text \<open>
  Sequencing of calls that may raise: \<open>and_then\<close> passes the value on or stops at the
  exception; \<open>or_else\<close> is \<^verbatim>\<open>||\<close>, whose right operand is not reached when the left is
  true or raises.
\<close>

definition and_then :: "exn + 'a \<Rightarrow> ('a \<Rightarrow> exn + 'b) \<Rightarrow> exn + 'b" where
  "and_then x f = (case x of Inl e \<Rightarrow> Inl e | Inr v \<Rightarrow> f v)"

definition or_else :: "exn + bool \<Rightarrow> exn + bool \<Rightarrow> exn + bool" where
  "or_else a b = (case a of Inl e \<Rightarrow> Inl e | Inr v \<Rightarrow> if v then Inr True else b)"

text \<open>The block of \<^verbatim>\<open>detect_format_impl\<close> for a directory: \<open>None\<close> when it falls through.\<close>

definition directory_format :: "env \<Rightarrow> string \<Rightarrow> exn + string option" where
  "directory_format E path =
     and_then
       (or_else (fs_exists E (path_append path ''pytorch_model.bin''))
          (or_else (fs_exists E (path_append path ''model.safetensors''))
             (fs_exists E (path_append path ''pytorch_model-00001-of-00002.bin''))))
       (\<lambda>weights.
          if weights
          then and_then (fs_exists E (path_append path ''model.safetensors''))
                 (\<lambda>st. Inr (if st then Some ''safetensors'' else Some ''pytorch''))
          else
            and_then
              (or_else (fs_exists E (path_append path ''saved_model.pb''))
                 (fs_exists E (path_append path ''tf_model.h5'')))
              (\<lambda>tf. if tf then Inr (Some ''tensorflow'')
                    else and_then (fs_exists E (path_append path ''flax_model.msgpack''))
                           (\<lambda>flax. Inr (if flax then Some ''flax'' else None))))"

definition detect_format_impl :: "env \<Rightarrow> string \<Rightarrow> exn + string" where
  "detect_format_impl E path =
     and_then (fs_exists E path)
       (\<lambda>ex.
          if \<not> ex then Inr []
          else if extension path = ''.gguf'' then Inr ''gguf''
          else
            and_then (if fs_is_directory E path then directory_format E path else Inr None)
              (\<lambda>in_dir.
                 let ext = extension path
                 in case in_dir of
                      Some f \<Rightarrow> Inr f
                    | None \<Rightarrow>
                        Inr (if ext = ''.bin'' \<or> ext = ''.pt'' \<or> ext = ''.pth'' then ''pytorch''
                             else if ext = ''.safetensors'' then ''safetensors''
                             else if ext = ''.h5'' \<or> ext = ''.pb'' then ''tensorflow''
                             else if ext = ''.msgpack'' then ''flax''
                             else [])))"

subsection \<open>The sidecar configuration file\<close>

text \<open>
  \<^verbatim>\<open>std::stoul\<close> in base 10, with a 64-bit \<^verbatim>\<open>unsigned long\<close> (LP64): leading white
  space is skipped, one sign is accepted, the longest run of digits is read; no digit
  raises \<^verbatim>\<open>std::invalid_argument\<close>, a value beyond \<^verbatim>\<open>ULONG_MAX\<close> raises
  \<^verbatim>\<open>std::out_of_range\<close>, and a minus sign negates in the unsigned type.
\<close>

definition isspace :: "char \<Rightarrow> bool" where
  "isspace c = (c \<in> set [CHR '' '', CHR 0x09, CHR 0x0A, CHR 0x0B, CHR 0x0C, CHR 0x0D])"

definition isdigit :: "char \<Rightarrow> bool" where
  "isdigit c = (48 \<le> (of_char c :: nat) \<and> (of_char c :: nat) \<le> 57)"

definition digits_value :: "string \<Rightarrow> nat" where
  "digits_value ds = foldl (\<lambda>v c. 10 * v + ((of_char c :: nat) - 48)) 0 ds"

definition stoul :: "string \<Rightarrow> exn + nat" where
  "stoul s =
     (let s1 = dropWhile isspace s;
          neg = (s1 \<noteq> [] \<and> hd s1 = CHR ''-'');
          s2 = (if s1 \<noteq> [] \<and> (hd s1 = CHR ''-'' \<or> hd s1 = CHR ''+'') then tl s1 else s1);
          ds = takeWhile isdigit s2
      in if ds = [] then Inl (invalid_argument ''stoul'')
         else if 2 ^ 64 \<le> digits_value ds then Inl (out_of_range ''stoul'')
         else Inr (if neg then (2 ^ 64 - digits_value ds) mod 2 ^ 64 else digits_value ds))"

text \<open>The two \<^verbatim>\<open>remove_if\<close> calls: quotes, blanks and tabs leave a key; commas too, a value.\<close>

definition clean_key :: "string \<Rightarrow> string" where
  "clean_key k = filter (\<lambda>c. \<not> (c = CHR 0x22 \<or> c = CHR '' '' \<or> c = CHR 0x09)) k"

definition clean_value :: "string \<Rightarrow> string" where
  "clean_value v =
     filter (\<lambda>c. \<not> (c = CHR 0x22 \<or> c = CHR '','' \<or> c = CHR '' '' \<or> c = CHR 0x09)) v"

text \<open>The \<^verbatim>\<open>while (std::getline(file, line))\<close> loop filling the \<^verbatim>\<open>std::map\<close>.\<close>

fun parse_config :: "string list \<Rightarrow> (string \<rightharpoonup> string) \<Rightarrow> (string \<rightharpoonup> string)" where
  "parse_config [] config = config"
| "parse_config (line # rest) config =
     (if CHR '':'' \<in> set line
      then parse_config rest
             (config(clean_key (takeWhile (\<lambda>c. c \<noteq> CHR '':'') line) \<mapsto>
                     clean_value (tl (dropWhile (\<lambda>c. c \<noteq> CHR '':'') line))))
      else parse_config rest config)"

text \<open>
  \<^verbatim>\<open>extract_model_info\<close> writes through \<^verbatim>\<open>info\<close> as it goes: the second component is the
  struct as the function leaves it, also when \<^verbatim>\<open>fs::exists\<close> or a \<^verbatim>\<open>std::stoul\<close>
  raises.
  \<^verbatim>\<open>strncpy\<close> of at most 63 characters into a zeroed 64-byte array leaves the first 63
  characters of the source.
\<close>

definition extract_model_info ::
  "env \<Rightarrow> string \<Rightarrow> gguf_model_info_t \<Rightarrow> bool result \<times> gguf_model_info_t" where
  "extract_model_info E path info =
     (let config_path =
            (if fs_is_directory E path then path_append path ''config.json''
             else path_append (parent_path path) ''config.json'')
      in case fs_exists E config_path of
           Inl e \<Rightarrow> (Raise e, info)
         | Inr ex \<Rightarrow>
        if \<not> ex then (Return False, info)
        else
        (case fs_read_lines E config_path of
           None \<Rightarrow> (Return False, info)
         | Some lines \<Rightarrow>
            (let config = parse_config lines Map.empty;
                 i1 = (case config ''model_type'' of
                         Some v \<Rightarrow> info\<lparr>info_model_type := take 63 v\<rparr> | None \<Rightarrow> info);
                 i2 = (case config ''architectures'' of
                         Some v \<Rightarrow> i1\<lparr>info_architecture := take 63 v\<rparr> | None \<Rightarrow> i1)
             in case (case config ''hidden_size'' of
                        Some v \<Rightarrow> map_sum id (\<lambda>n. i2\<lparr>hidden_size := of_nat n\<rparr>) (stoul v)
                      | None \<Rightarrow> Inr i2) of
                  Inl e \<Rightarrow> (Raise e, i2)
                | Inr i3 \<Rightarrow>
               (case (case config ''num_hidden_layers'' of
                        Some v \<Rightarrow> map_sum id (\<lambda>n. i3\<lparr>num_layers := of_nat n\<rparr>) (stoul v)
                      | None \<Rightarrow> Inr i3) of
                  Inl e \<Rightarrow> (Raise e, i3)
                | Inr i4 \<Rightarrow>
               (case (case config ''vocab_size'' of
                        Some v \<Rightarrow> map_sum id (\<lambda>n. i4\<lparr>vocab_size := of_nat n\<rparr>) (stoul v)
                      | None \<Rightarrow> Inr i4) of
                  Inl e \<Rightarrow> (Raise e, i4)
                | Inr i5 \<Rightarrow>
               (case (case config ''max_position_embeddings'' of
                        Some v \<Rightarrow> map_sum id (\<lambda>n. i5\<lparr>context_length := of_nat n\<rparr>) (stoul v)
                      | None \<Rightarrow> Inr i5) of
                  Inl e \<Rightarrow> (Raise e, i5)
                | Inr i6 \<Rightarrow> (Return True, i6)))))))"

text \<open>\<^verbatim>\<open>memset(info, 0, sizeof(gguf_model_info_t))\<close>.\<close>

definition zero_info :: gguf_model_info_t where
  "zero_info =
     \<lparr>info_model_type = [], info_architecture = [], parameter_count = 0, num_layers = 0,
      hidden_size = 0, vocab_size = 0, context_length = 0, info_quantization = [],
      file_size = 0\<rparr>"

text \<open>The body of the \<^verbatim>\<open>try\<close> block of \<^verbatim>\<open>gguf_validate_input\<close> that sizes the input.\<close>

fun sum_sizes :: "env \<Rightarrow> string list \<Rightarrow> 64 word \<Rightarrow> exn + 64 word" where
  "sum_sizes E [] total_size = Inr total_size"
| "sum_sizes E (entry # rest) total_size =
     (if fs_is_regular_file E entry
      then (case fs_file_size E entry of
              Inl e \<Rightarrow> Inl e
            | Inr n \<Rightarrow> sum_sizes E rest (total_size + of_nat n))
      else sum_sizes E rest total_size)"

definition input_size :: "env \<Rightarrow> string \<Rightarrow> exn + 64 word" where
  "input_size E path =
     (if fs_is_directory E path
      then (case fs_walk E path of Inl e \<Rightarrow> Inl e | Inr entries \<Rightarrow> sum_sizes E entries 0)
      else map_sum id of_nat (fs_file_size E path))"

subsection \<open>The public API\<close>

definition gguf_version :: string where
  "gguf_version = GGUF_BRIDGE_VERSION"

definition gguf_get_last_error :: "world \<Rightarrow> string" where
  "gguf_get_last_error w = last_error w"

definition gguf_clear_error :: "world \<Rightarrow> world" where
  "gguf_clear_error w = w\<lparr>last_error := []\<rparr>"

text \<open>The caller's struct is passed by pointer: \<open>None\<close> is the null pointer.\<close>

definition gguf_default_params ::
  "gguf_conversion_params_t option \<Rightarrow> gguf_conversion_params_t option" where
  "gguf_default_params ps =
     (case ps of
        None \<Rightarrow> None
      | Some _ \<Rightarrow>
          Some ((params new_ctx)\<lparr>quantization := static_ptr ''f16'', vocab_only := 0,
                                 use_mmap := 1, num_threads := 0, pad_vocab := 0\<rparr>))"

text \<open>\<^verbatim>\<open>strdup\<close> of a field that is not null; a null field stays null.\<close>

definition dup_field :: "cptr \<Rightarrow> heap \<Rightarrow> (cptr \<times> heap) option" where
  "dup_field p h =
     (if p = nullptr then Some (nullptr, h)
      else case cstr h p of
             None \<Rightarrow> None
           | Some s \<Rightarrow> Some (heap_ptr (length h), h @ [Some (CStr s)]))"

definition gguf_create_context ::
  "env \<Rightarrow> gguf_conversion_params_t option \<Rightarrow> world \<Rightarrow> cptr result \<times> world" where
  "gguf_create_context E ps w =
     (case ps of
        None \<Rightarrow>
          (Return nullptr,
           set_error ''Invalid parameters: input_path and output_path are required'' w)
      | Some p \<Rightarrow>
          if input_path p = nullptr \<or> output_path p = nullptr
          then (Return nullptr,
                set_error ''Invalid parameters: input_path and output_path are required'' w)
          else (case cstr (heap w) (input_path p) of
            None \<Rightarrow> (Fault, w)
          | Some ip \<Rightarrow>
            (case fs_exists E ip of
               Inl e \<Rightarrow> (Raise e, w)
             | Inr ex \<Rightarrow>
             if \<not> ex
             then (Return nullptr, set_error (''Input path not found: '' @ ip) w)
             else
               (let a = length (heap w);
                    h0 = heap w @ [Some (Ctx (new_ctx\<lparr>params := p\<rparr>))]
                in case dup_field (input_path p) h0 of None \<Rightarrow> (Fault, w)
                   | Some (p_in, h1) \<Rightarrow>
                  (case dup_field (output_path p) h1 of None \<Rightarrow> (Fault, w)
                   | Some (p_out, h2) \<Rightarrow>
                  (case dup_field (model_type p) h2 of None \<Rightarrow> (Fault, w)
                   | Some (p_mt, h3) \<Rightarrow>
                  (case dup_field (quantization p) h3 of None \<Rightarrow> (Fault, w)
                   | Some (p_q, h4) \<Rightarrow>
                  (case dup_field (vocab_type p) h4 of None \<Rightarrow> (Fault, w)
                   | Some (p_vt, h5) \<Rightarrow>
                  (case cstr (heap w) (output_path p) of None \<Rightarrow> (Fault, w)
                   | Some op \<Rightarrow>
                     (let c = new_ctx\<lparr>params :=
                                p\<lparr>input_path := p_in, output_path := p_out,
                                  model_type := p_mt, quantization := p_q,
                                  vocab_type := p_vt\<rparr>\<rparr>;
                          w1 = w\<lparr>heap := list_update h5 a (Some (Ctx c))\<rparr>
                      in (Return (heap_ptr a),
                          ctx_log c 1
                            (''Created conversion context: '' @ ip @ '' -> '' @ op)
                            w1)))))))))))"

definition gguf_validate_input ::
  "env \<Rightarrow> cptr \<Rightarrow> gguf_model_info_t option \<Rightarrow> world \<Rightarrow>
   gguf_error_code_t result \<times> gguf_model_info_t option \<times> world" where
  "gguf_validate_input E ctx info w =
     (if ctx = nullptr
      then (Return GGUF_ERROR_INVALID_ARGS, info, set_error ''Invalid context'' w)
      else case ctx_at (heap w) ctx of
        None \<Rightarrow> (Fault, info, w)
      | Some c \<Rightarrow>
         (case cstr (heap w) (input_path (params c)) of
            None \<Rightarrow> (Fault, info, w)
          | Some ip \<Rightarrow>
             (case detect_format_impl E ip of
                Inl e \<Rightarrow> (Raise e, info, w)
              | Inr format \<Rightarrow>
                 if format = []
                 then (Return GGUF_ERROR_INVALID_FORMAT, info,
                       set_error (''Could not detect model format from: '' @ ip) w)
                 else
                   (let w1 = ctx_log c 1 (''Detected format: '' @ format) w
                    in case info of
                         None \<Rightarrow> (Return GGUF_SUCCESS, None, w1)
                       | Some _ \<Rightarrow>
                          (case extract_model_info E ip zero_info of
                             (Raise e, i1) \<Rightarrow> (Raise e, Some i1, w1)
                           | (Fault, i1) \<Rightarrow> (Fault, Some i1, w1)
                           | (Return ok, i1) \<Rightarrow>
                              (let w2 = (if \<not> ok
                                         then ctx_log c 2
                                           ''Warning: Could not extract full model info from config''
                                           w1
                                         else w1)
                               in case input_size E ip of
                                    Inl e \<Rightarrow>
                                      (Return GGUF_SUCCESS, Some i1,
                                       ctx_log c 2
                                         (''Warning: Could not determine file size: '' @ what e)
                                         w2)
                                  | Inr n \<Rightarrow>
                                      (Return GGUF_SUCCESS, Some (i1\<lparr>file_size := n\<rparr>),
                                       w2)))))))"

text \<open>The loop over \<^verbatim>\<open>QUANTIZATION_TYPES\<close> with \<^verbatim>\<open>strcmp\<close>.\<close>

primrec valid_quant :: "string \<Rightarrow> string list \<Rightarrow> bool" where
  "valid_quant q [] = False"
| "valid_quant q (t # ts) = (if q = t then True else valid_quant q ts)"

text \<open>The chain of comparisons that sets \<^verbatim>\<open>target_ftype\<close>, the default first.\<close>

definition target_ftype :: "string \<Rightarrow> llama_ftype" where
  "target_ftype quantization_str =
     (if quantization_str = ''f32'' then LLAMA_FTYPE_ALL_F32
      else if quantization_str = ''f16'' then LLAMA_FTYPE_MOSTLY_F16
      else if quantization_str = ''q8_0'' then LLAMA_FTYPE_MOSTLY_Q8_0
      else if quantization_str = ''q4_0'' then LLAMA_FTYPE_MOSTLY_Q4_0
      else if quantization_str = ''q4_1'' then LLAMA_FTYPE_MOSTLY_Q4_1
      else if quantization_str = ''q5_0'' then LLAMA_FTYPE_MOSTLY_Q5_0
      else if quantization_str = ''q5_1'' then LLAMA_FTYPE_MOSTLY_Q5_1
      else if quantization_str = ''q2_k'' then LLAMA_FTYPE_MOSTLY_Q2_K
      else if quantization_str = ''q3_k_s'' then LLAMA_FTYPE_MOSTLY_Q3_K_S
      else if quantization_str = ''q3_k_m'' then LLAMA_FTYPE_MOSTLY_Q3_K_M
      else if quantization_str = ''q3_k_l'' then LLAMA_FTYPE_MOSTLY_Q3_K_L
      else if quantization_str = ''q4_k_s'' then LLAMA_FTYPE_MOSTLY_Q4_K_S
      else if quantization_str = ''q4_k_m'' then LLAMA_FTYPE_MOSTLY_Q4_K_M
      else if quantization_str = ''q5_k_s'' then LLAMA_FTYPE_MOSTLY_Q5_K_S
      else if quantization_str = ''q5_k_m'' then LLAMA_FTYPE_MOSTLY_Q5_K_M
      else if quantization_str = ''q6_k'' then LLAMA_FTYPE_MOSTLY_Q6_K
      else LLAMA_FTYPE_MOSTLY_F16)"

text \<open>The command line for the Python script, as \<^verbatim>\<open>cmd\<close> is built up.\<close>

definition conversion_cmd ::
  "env \<Rightarrow> string \<Rightarrow> string \<Rightarrow> string \<Rightarrow> int \<Rightarrow> string option \<Rightarrow> int \<Rightarrow> string" where
  "conversion_cmd E ip op q vocab_only_flag mt threads =
     ''python3 '' @
     source_dir E @ ''/../../vendor/llama-cpp/llama.cpp/convert_hf_to_gguf.py '' @
     [CHR 0x22] @ ip @ [CHR 0x22] @ '' '' @
     ''--outfile '' @ [CHR 0x22] @ op @ [CHR 0x22] @ '' '' @
     ''--outtype '' @ q @ '' '' @
     (if vocab_only_flag \<noteq> 0 then ''--vocab-only '' else []) @
     (case mt of Some m \<Rightarrow> ''--model-type '' @ m @ '' '' | None \<Rightarrow> []) @
     (if 0 < threads then ''--threads '' @ to_string threads @ '' '' else [])"

text \<open>The end of the \<^verbatim>\<open>try\<close> block, reached by both branches on success.\<close>

definition convert_complete ::
  "gguf_conversion_ctx \<times> world \<Rightarrow> gguf_error_code_t result \<times> gguf_conversion_ctx \<times> world" where
  "convert_complete s =
     (let s1 = set_progress 1 (Some ''Complete'') s;
          w2 = ctx_log (fst s1) 1 ''Conversion completed successfully'' (snd s1)
      in (Return GGUF_SUCCESS, fst s1, emit llama_backend_free w2))"

text \<open>The branch for a directory, \<^verbatim>\<open>.bin\<close> or \<^verbatim>\<open>.safetensors\<close>: the Python script.\<close>

definition full_conversion ::
  "env \<Rightarrow> string \<Rightarrow> string \<Rightarrow> string \<Rightarrow> gguf_conversion_ctx \<times> world \<Rightarrow>
   gguf_error_code_t result \<times> gguf_conversion_ctx \<times> world" where
  "full_conversion E ip op q s =
     (let s1 = set_progress (2 / 10) (Some ''Preparing conversion parameters'') s;
          ps = params (fst s1);
          mt = cstr (heap (snd s1)) (model_type ps)
      in if model_type ps \<noteq> nullptr \<and> mt = None then (Fault, s1)
         else
           (let cmd = conversion_cmd E ip op q (vocab_only ps) mt (num_threads ps);
                s2 = set_progress (3 / 10) (Some ''Executing conversion script'') s1;
                w3 = emit (system_call cmd) (ctx_log (fst s2) 1 (''Running: '' @ cmd) (snd s2));
                result = system_result E cmd
            in if result \<noteq> 0
               then (Return GGUF_ERROR_CONVERSION_FAILED, fst s2,
                     emit llama_backend_free
                       (set_error
                          (''Python conversion script failed with code: '' @ to_string result)
                          w3))
               else convert_complete (fst s2, w3)))"

text \<open>The branch for \<^verbatim>\<open>.gguf\<close>: llama.cpp's quantize function.\<close>

definition quantize_existing ::
  "env \<Rightarrow> string \<Rightarrow> string \<Rightarrow> string \<Rightarrow> gguf_conversion_ctx \<times> world \<Rightarrow>
   gguf_error_code_t result \<times> gguf_conversion_ctx \<times> world" where
  "quantize_existing E ip op q s =
     (let s1 = set_progress (2 / 10) (Some ''Preparing quantization parameters'') s;
          ftype = target_ftype q;
          nthread = num_threads (params (fst s1));
          s2 = set_progress (3 / 10) (Some ''Starting quantization process'') s1;
          w3 = emit (llama_model_quantize_call ip op ftype nthread) (snd s2)
      in case quantize_result E ip op ftype nthread of
           Inl e \<Rightarrow> (Raise e, fst s2, w3)
         | Inr result \<Rightarrow>
             if result \<noteq> 0
             then (Return GGUF_ERROR_CONVERSION_FAILED, fst s2,
                   emit llama_backend_free
                     (set_error
                        (''llama.cpp quantization failed with code: '' @ string_of_nat result)
                        w3))
             else convert_complete (fst s2, w3))"

text \<open>The \<^verbatim>\<open>try\<close> block of \<^verbatim>\<open>gguf_convert\<close>.\<close>

definition convert_try ::
  "env \<Rightarrow> gguf_conversion_ctx \<times> world \<Rightarrow>
   gguf_error_code_t result \<times> gguf_conversion_ctx \<times> world" where
  "convert_try E s0 =
     (let s1 = set_progress 0 (Some ''Initializing conversion'') s0;
          s2 = (fst s1, ctx_log (fst s1) 1 ''Starting conversion...'' (snd s1));
          ps = params (fst s2);
          h = heap (snd s2)
      in if cancelled (fst s2)
         then (Return GGUF_ERROR_CANCELLED, fst s2, set_error ''Conversion cancelled'' (snd s2))
         else case cstr h (quantization ps) of
           None \<Rightarrow> (Fault, s2)
         | Some q \<Rightarrow>
            if \<not> valid_quant q QUANTIZATION_TYPES
            then (Return GGUF_ERROR_INVALID_QUANTIZATION, fst s2,
                  set_error (''Invalid quantization type: '' @ q) (snd s2))
            else
              (let s3 = set_progress (1 / 10) (Some ''Loading model'') s2;
                   s4 = (fst s3, emit llama_backend_init (snd s3))
               in case cstr h (input_path ps) of
                    None \<Rightarrow> (Fault, s4)
                  | Some ip \<Rightarrow>
                 (case cstr h (output_path ps) of
                    None \<Rightarrow> (Fault, s4)
                  | Some op \<Rightarrow>
                     (let input_ext = extension ip
                      in if fs_is_directory E ip \<or> input_ext = ''.bin'' \<or>
                            input_ext = ''.safetensors''
                         then full_conversion E ip op q s4
                         else if input_ext = ''.gguf''
                         then quantize_existing E ip op q s4
                         else (Return GGUF_ERROR_INVALID_FORMAT, fst s4,
                               emit llama_backend_free
                                 (set_error (''Unsupported input format: '' @ input_ext)
                                    (snd s4)))))))"

definition gguf_convert :: "env \<Rightarrow> cptr \<Rightarrow> world \<Rightarrow> gguf_error_code_t result \<times> world" where
  "gguf_convert E ctx w =
     (if ctx = nullptr
      then (Return GGUF_ERROR_INVALID_ARGS, set_error ''Invalid context'' w)
      else case ctx_at (heap w) ctx of
        None \<Rightarrow> (Fault, w)
      | Some c \<Rightarrow>
         (case convert_try E (c, w) of
            (Raise e, c', w') \<Rightarrow>
              (let w1 = set_error (''Conversion error: '' @ what e) w';
                   w2 = ctx_log c' 3 (last_error w1) w1
               in (Return GGUF_ERROR_CONVERSION_FAILED,
                   store_ctx ctx c' (emit llama_backend_free w2)))
          | (r, c', w') \<Rightarrow> (r, store_ctx ctx c' w')))"

definition gguf_cancel :: "cptr \<Rightarrow> world \<Rightarrow> unit result \<times> world" where
  "gguf_cancel ctx w =
     (if ctx = nullptr then (Return (), w)
      else case ctx_at (heap w) ctx of
        None \<Rightarrow> (Fault, w)
      | Some c \<Rightarrow>
          (let c' = c\<lparr>cancelled := True\<rparr>
           in (Return (), ctx_log c' 2 ''Cancellation requested'' (store_ctx ctx c' w))))"

definition gguf_is_cancelled :: "cptr \<Rightarrow> world \<Rightarrow> int result" where
  "gguf_is_cancelled ctx w =
     (if ctx = nullptr then Return 0
      else case ctx_at (heap w) ctx of
        None \<Rightarrow> Fault
      | Some c \<Rightarrow> Return (if cancelled c then 1 else 0))"

definition gguf_get_progress :: "cptr \<Rightarrow> world \<Rightarrow> real result" where
  "gguf_get_progress ctx w =
     (if ctx = nullptr then Return (- 1)
      else case ctx_at (heap w) ctx of
        None \<Rightarrow> Fault
      | Some c \<Rightarrow> Return (progress c))"

text \<open>\<^verbatim>\<open>if (p) free(p)\<close>: only a live heap cell holding a string can be freed.\<close>

definition free_field :: "cptr \<Rightarrow> heap \<Rightarrow> heap option" where
  "free_field p h =
     (case p of
        nullptr \<Rightarrow> Some h
      | static_ptr _ \<Rightarrow> None
      | heap_ptr a \<Rightarrow>
          (case lookup h a of Some (CStr _) \<Rightarrow> Some (list_update h a None) | _ \<Rightarrow> None))"

definition gguf_free_context :: "cptr \<Rightarrow> world \<Rightarrow> unit result \<times> world" where
  "gguf_free_context ctx w =
     (if ctx = nullptr then (Return (), w)
      else case ctx_at (heap w) ctx of
        None \<Rightarrow> (Fault, w)
      | Some c \<Rightarrow>
         (case Option.bind (Option.bind (Option.bind (Option.bind
                 (free_field (input_path (params c)) (heap w))
                 (free_field (output_path (params c))))
                 (free_field (model_type (params c))))
                 (free_field (quantization (params c))))
                 (free_field (vocab_type (params c))) of
            None \<Rightarrow> (Fault, w)
          | Some h \<Rightarrow>
              (Return (),
               w\<lparr>heap := (case ctx of heap_ptr a \<Rightarrow> list_update h a None | _ \<Rightarrow> h)\<rparr>)))"

text \<open>
  The result is the C string that the returned pointer refers to (\<open>None\<close>: the null
  pointer); the pointer refers to the thread-local \<^verbatim>\<open>format_str\<close>, which is assigned
  only when \<^verbatim>\<open>detect_format_impl\<close> returns.
\<close>

definition gguf_detect_format ::
  "env \<Rightarrow> string option \<Rightarrow> world \<Rightarrow> string option result \<times> world" where
  "gguf_detect_format E path w =
     (case path of
        None \<Rightarrow> (Return None, w)
      | Some p \<Rightarrow>
          (case detect_format_impl E p of
             Inl e \<Rightarrow> (Raise e, w)
           | Inr f \<Rightarrow>
               (let w1 = w\<lparr>format_str := f\<rparr>
                in (Return (if format_str w1 = [] then None else Some (format_str w1)), w1))))"

definition gguf_available_quantizations :: "string list" where
  "gguf_available_quantizations = QUANTIZATION_TYPES"

text \<open>
  \<^verbatim>\<open>gguf_verify_file\<close>. A file shorter than four bytes leaves the tail of \<^verbatim>\<open>magic\<close>
  uninitialised; \<^verbatim>\<open>strncmp\<close> reads it when the bytes before it agree with the literal.
\<close>

definition gguf_verify_file ::
  "env \<Rightarrow> string option \<Rightarrow> gguf_model_info_t option \<Rightarrow> world \<Rightarrow>
   gguf_error_code_t result \<times> gguf_model_info_t option \<times> world" where
  "gguf_verify_file E path info w =
     (case path of
        None \<Rightarrow> (Return GGUF_ERROR_INVALID_ARGS, info, set_error ''Invalid path'' w)
      | Some p \<Rightarrow>
         (case fs_exists E p of
            Inl e \<Rightarrow> (Raise e, info, w)
          | Inr ex \<Rightarrow>
          if \<not> ex
          then (Return GGUF_ERROR_FILE_NOT_FOUND, info, set_error ''File not found'' w)
          else (case fs_read_bytes E p of
            None \<Rightarrow> (Return GGUF_ERROR_IO_ERROR, info, set_error ''Could not open file'' w)
          | Some bytes \<Rightarrow>
             (let magic = take 4 bytes
              in if magic \<noteq> ''GGUF'' \<and> magic = take (length magic) ''GGUF''
                 then (Fault, info, w)
                 else if magic \<noteq> ''GGUF''
                 then (Return GGUF_ERROR_INVALID_FORMAT, info,
                       set_error ''Invalid GGUF magic number'' w)
                 else case info of
                   None \<Rightarrow> (Return GGUF_SUCCESS, None, w)
                 | Some _ \<Rightarrow>
                    (case fs_file_size E p of
                       Inl e \<Rightarrow> (Raise e, Some zero_info, w)
                     | Inr n \<Rightarrow>
                         (Return GGUF_SUCCESS,
                          Some (zero_info\<lparr>file_size := of_nat n,
                                          info_model_type := take 63 ''gguf''\<rparr>),
                          w))))))"

subsection \<open>Concrete states\<close>

text \<open>
  A small file system: a GGUF file, a PyTorch checkpoint, and a Hugging Face directory
  whose \<^verbatim>\<open>config.json\<close> gives \<^verbatim>\<open>null\<close> for \<^verbatim>\<open>hidden_size\<close>. A file name of more than
  255 characters makes the status query fail, as \<^verbatim>\<open>ENAMETOOLONG\<close> does. The spawned
  process and the quantize call succeed.
\<close>

definition example_env :: env where
  "example_env =
     \<lparr>fs_exists = (\<lambda>p. if 255 < length (filename p)
                       then Inl (filesystem_error ''File name too long'')
                       else Inr (p = ''m.gguf'' \<or> p = ''model.pt'' \<or> p = ''hf'' \<or>
                                 p = ''hf/model.safetensors'' \<or> p = ''hf/config.json'')),
      fs_is_directory = (\<lambda>p. p = ''hf''),
      fs_is_regular_file = (\<lambda>p. p = ''m.gguf'' \<or> p = ''model.pt'' \<or>
                                  p = ''hf/model.safetensors'' \<or> p = ''hf/config.json''),
      fs_read_lines =
        (\<lambda>p. if p = ''hf/config.json''
             then Some [''{'',
                        [CHR 0x22] @ ''model_type'' @ [CHR 0x22] @ '': '' @
                          [CHR 0x22] @ ''llama'' @ [CHR 0x22] @ '','',
                        [CHR 0x22] @ ''hidden_size'' @ [CHR 0x22] @ '': null'',
                        ''}'']
             else None),
      fs_read_bytes = (\<lambda>p. if p = ''m.gguf'' then Some ''GGUF'' else None),
      fs_file_size = (\<lambda>p. Inr 4),
      fs_walk = (\<lambda>p. Inr [''hf/model.safetensors'', ''hf/config.json'']),
      system_result = (\<lambda>cmd. 0),
      quantize_result = (\<lambda>inp out ftype nthread. Inr 0),
      source_dir = ''/src''\<rparr>"

text \<open>
  The caller's memory before \<^verbatim>\<open>gguf_create_context\<close>: three strings (input path,
  output path, quantization) at the addresses 0, 1 and 2, and the parameter struct that
  points to them, with both callbacks set.
\<close>

definition caller_world :: "string \<Rightarrow> string \<Rightarrow> string \<Rightarrow> world" where
  "caller_world ip op q =
     \<lparr>heap = [Some (CStr ip), Some (CStr op), Some (CStr q)],
      last_error = [], format_str = [], trace = []\<rparr>"

definition caller_params :: gguf_conversion_params_t where
  "caller_params =
     \<lparr>input_path = heap_ptr 0, output_path = heap_ptr 1, model_type = nullptr,
      quantization = heap_ptr 2, vocab_only = 0, use_mmap = 1, num_threads = 0,
      vocab_type = nullptr, pad_vocab = 0, metadata_overrides = nullptr,
      progress_cb = static_ptr ''on_progress'', log_cb = static_ptr ''on_log'',
      user_data = nullptr\<rparr>"

text \<open>The world and the context that \<^verbatim>\<open>gguf_create_context\<close> leaves for that caller.\<close>

definition created_ctx :: gguf_conversion_ctx where
  "created_ctx =
     \<lparr>params = caller_params\<lparr>input_path := heap_ptr 4, output_path := heap_ptr 5,
                               quantization := heap_ptr 6\<rparr>,
      progress = 0, cancelled = False, current_stage = []\<rparr>"

definition created_world :: "string \<Rightarrow> string \<Rightarrow> string \<Rightarrow> world" where
  "created_world ip op q =
     \<lparr>heap = [Some (CStr ip), Some (CStr op), Some (CStr q), Some (Ctx created_ctx),
              Some (CStr ip), Some (CStr op), Some (CStr q)],
      last_error = [], format_str = [],
      trace = [log_cb_call 1 (''Created conversion context: '' @ ip @ '' -> '' @ op) nullptr]\<rparr>"

subsection \<open>Vocabulary for the properties\<close>

text \<open>
  The events that one \<^verbatim>\<open>set_progress\<close> and one \<^verbatim>\<open>log\<close> add to the trace (none when
  the callback is null), the context after a \<^verbatim>\<open>set_progress\<close>, and the world after a
  run of events.
\<close>

definition ev_progress :: "gguf_conversion_ctx \<Rightarrow> real \<Rightarrow> string \<Rightarrow> event list" where
  "ev_progress c p stage =
     (if progress_cb (params c) \<noteq> nullptr
      then [progress_cb_call p (Some stage) (user_data (params c))] else [])"

definition ev_log :: "gguf_conversion_ctx \<Rightarrow> int \<Rightarrow> string \<Rightarrow> event list" where
  "ev_log c level message =
     (if log_cb (params c) \<noteq> nullptr
      then [log_cb_call level message (user_data (params c))] else [])"

definition at_stage :: "real \<Rightarrow> string \<Rightarrow> gguf_conversion_ctx \<Rightarrow> gguf_conversion_ctx" where
  "at_stage p stage c = c\<lparr>progress := p, current_stage := stage\<rparr>"

definition add_events :: "event list \<Rightarrow> world \<Rightarrow> world" where
  "add_events evs w = w\<lparr>trace := trace w @ evs\<rparr>"

text \<open>The events of \<^verbatim>\<open>gguf_convert\<close> up to the cancellation check, and up to the dispatch.\<close>

definition ev_start :: "gguf_conversion_ctx \<Rightarrow> event list" where
  "ev_start c =
     ev_progress c 0 ''Initializing conversion'' @ ev_log c 1 ''Starting conversion...''"

definition ev_load :: "gguf_conversion_ctx \<Rightarrow> event list" where
  "ev_load c = ev_start c @ ev_progress c (1 / 10) ''Loading model'' @ [llama_backend_init]"

fun is_log_event :: "event \<Rightarrow> bool" where
  "is_log_event (log_cb_call _ _ _) = True"
| "is_log_event _ = False"

text \<open>
  A pointer of the context is owned when it is null or the address of a cell allocated
  after the first \<open>n\<close> cells, the caller's.
\<close>

fun owned :: "nat \<Rightarrow> heap \<Rightarrow> cptr \<Rightarrow> bool" where
  "owned n h nullptr = True"
| "owned n h (static_ptr _) = False"
| "owned n h (heap_ptr b) = (n \<le> b \<and> b < length h)"

text \<open>A pointer that can be read as a C string, or is null.\<close>

definition null_or_string :: "heap \<Rightarrow> cptr \<Rightarrow> bool" where
  "null_or_string h p = (p = nullptr \<or> cstr h p \<noteq> None)"









section \<open>Properties\<close>

subsection \<open>Facts about the heap and the trace\<close>

lemma ctx_at_SomeD:
  "ctx_at h p = Some c \<Longrightarrow> \<exists>a. p = heap_ptr a \<and> a < length h \<and> h ! a = Some (Ctx c)"
  by (cases p) (auto simp: lookup_def split: if_splits option.splits obj.splits)

lemma example_exists:
  "fs_exists example_env ''m.gguf'' = Inr True"
  "fs_exists example_env ''model.pt'' = Inr True"
  "fs_exists example_env ''hf'' = Inr True"
  "fs_exists example_env ''hf/pytorch_model.bin'' = Inr False"
  "fs_exists example_env ''hf/model.safetensors'' = Inr True"
  "fs_exists example_env ''hf/config.json'' = Inr True"
  "fs_exists example_env ''absent.bin'' = Inr False"
  "fs_exists example_env ''absent.gguf'' = Inr False"
  by (simp_all add: example_env_def filename_def)


lemma created_world_eq:
  "fs_exists example_env ip = Inr True \<Longrightarrow>
   gguf_create_context example_env (Some caller_params) (caller_world ip op q) =
     (Return (heap_ptr 3), created_world ip op q)"
  by (simp add: gguf_create_context_def caller_params_def caller_world_def created_world_def
      created_ctx_def dup_field_def lookup_def new_ctx_def Let_def ctx_log_def emit_def)

lemma created_ctx_at: "ctx_at (heap (created_world ip op q)) (heap_ptr 3) = Some created_ctx"
  by (simp add: created_world_def lookup_def)

lemma at_stage_simps [simp]:
  "params (at_stage p st c) = params c"
  "cancelled (at_stage p st c) = cancelled c"
  "progress (at_stage p st c) = p"
  "current_stage (at_stage p st c) = st"
  "at_stage p st (at_stage p' st' c) = at_stage p st c"
  by (simp_all add: at_stage_def)

lemma ev_at_stage [simp]:
  "ev_progress (at_stage p st c) = ev_progress c"
  "ev_log (at_stage p st c) = ev_log c"
  by (simp_all add: ev_progress_def ev_log_def fun_eq_iff)

lemma add_events_simps [simp]:
  "heap (add_events evs w) = heap w"
  "last_error (add_events evs w) = last_error w"
  "format_str (add_events evs w) = format_str w"
  "trace (add_events evs w) = trace w @ evs"
  "add_events evs (add_events evs' w) = add_events (evs' @ evs) w"
  by (simp_all add: add_events_def)

lemma set_error_simps [simp]:
  "heap (set_error m w) = heap w"
  "last_error (set_error m w) = m"
  "format_str (set_error m w) = format_str w"
  "trace (set_error m w) = trace w"
  "add_events evs (set_error m w) = set_error m (add_events evs w)"
  by (simp_all add: set_error_def add_events_def)

lemma set_progress_eq:
  "set_progress p (Some st) (c, w) = (at_stage p st c, add_events (ev_progress c p st) w)"
  by (simp add: set_progress_def ev_progress_def at_stage_def add_events_def emit_def Let_def)

lemma ctx_log_eq: "ctx_log c l m w = add_events (ev_log c l m) w"
  by (simp add: ctx_log_def ev_log_def add_events_def emit_def)

lemma emit_eq: "emit e w = add_events [e] w"
  by (simp add: emit_def add_events_def)

lemmas step_eqs = set_progress_eq ctx_log_eq emit_eq

lemma filter_backend_events [simp]:
  "filter is_backend_event (ev_progress c p st) = []"
  "filter is_backend_event (ev_log c l m) = []"
  "filter is_backend_event (ev_start c) = []"
  "filter is_backend_event (ev_load c) = [llama_backend_init]"
  by (simp_all add: ev_progress_def ev_log_def ev_start_def ev_load_def)

lemma emitted_add_events [simp]:
  "emitted w (add_events evs w) = evs"
  "emitted w (set_error m w') = emitted w w'"
  "emitted w (store_ctx h c w') = emitted w w'"
  by (cases h; simp add: emitted_def store_ctx_def set_error_def)+

subsection \<open>The branches of \<^verbatim>\<open>gguf_convert\<close>, step by step\<close>

lemma convert_complete_eq:
  "convert_complete (c, w) =
     (Return GGUF_SUCCESS, at_stage 1 ''Complete'' c,
      add_events (ev_progress c 1 ''Complete'' @
                  ev_log c 1 ''Conversion completed successfully'' @ [llama_backend_free]) w)"
  by (simp add: convert_complete_def step_eqs Let_def)

lemma full_conversion_eq:
  "full_conversion E ip op q (c, w) =
     (if model_type (params c) \<noteq> nullptr \<and> cstr (heap w) (model_type (params c)) = None
      then (Fault, at_stage (2 / 10) ''Preparing conversion parameters'' c,
            add_events (ev_progress c (2 / 10) ''Preparing conversion parameters'') w)
      else
       (let cmd = conversion_cmd E ip op q (vocab_only (params c))
                    (cstr (heap w) (model_type (params c))) (num_threads (params c));
            evs = ev_progress c (2 / 10) ''Preparing conversion parameters'' @
                  ev_progress c (3 / 10) ''Executing conversion script'' @
                  ev_log c 1 (''Running: '' @ cmd) @ [system_call cmd]
        in if system_result E cmd \<noteq> 0
           then (Return GGUF_ERROR_CONVERSION_FAILED,
                 at_stage (3 / 10) ''Executing conversion script'' c,
                 set_error (''Python conversion script failed with code: '' @
                            to_string (system_result E cmd))
                   (add_events (evs @ [llama_backend_free]) w))
           else (Return GGUF_SUCCESS, at_stage 1 ''Complete'' c,
                 add_events (evs @ ev_progress c 1 ''Complete'' @
                    ev_log c 1 ''Conversion completed successfully'' @
                    [llama_backend_free]) w)))"
  by (simp add: full_conversion_def step_eqs convert_complete_eq Let_def)

lemma quantize_existing_eq:
  "quantize_existing E ip op q (c, w) =
     (let evs = ev_progress c (2 / 10) ''Preparing quantization parameters'' @
                ev_progress c (3 / 10) ''Starting quantization process'' @
                [llama_model_quantize_call ip op (target_ftype q) (num_threads (params c))]
      in case quantize_result E ip op (target_ftype q) (num_threads (params c)) of
           Inl e \<Rightarrow> (Raise e, at_stage (3 / 10) ''Starting quantization process'' c,
                     add_events evs w)
         | Inr result \<Rightarrow>
            if result \<noteq> 0
            then (Return GGUF_ERROR_CONVERSION_FAILED,
                  at_stage (3 / 10) ''Starting quantization process'' c,
                  set_error (''llama.cpp quantization failed with code: '' @ string_of_nat result)
                    (add_events (evs @ [llama_backend_free]) w))
            else (Return GGUF_SUCCESS, at_stage 1 ''Complete'' c,
                  add_events (evs @ ev_progress c 1 ''Complete'' @
                    ev_log c 1 ''Conversion completed successfully'' @
                    [llama_backend_free]) w))"
  by (simp add: quantize_existing_def step_eqs convert_complete_eq Let_def split: sum.splits)

lemma convert_try_eq:
  "convert_try E (c, w) =
     (if cancelled c
      then (Return GGUF_ERROR_CANCELLED, at_stage 0 ''Initializing conversion'' c,
            set_error ''Conversion cancelled'' (add_events (ev_start c) w))
      else case cstr (heap w) (quantization (params c)) of
        None \<Rightarrow> (Fault, at_stage 0 ''Initializing conversion'' c, add_events (ev_start c) w)
      | Some q \<Rightarrow>
         if \<not> valid_quant q QUANTIZATION_TYPES
         then (Return GGUF_ERROR_INVALID_QUANTIZATION, at_stage 0 ''Initializing conversion'' c,
               set_error (''Invalid quantization type: '' @ q) (add_events (ev_start c) w))
         else
          (case cstr (heap w) (input_path (params c)) of
             None \<Rightarrow> (Fault, at_stage (1 / 10) ''Loading model'' c, add_events (ev_load c) w)
           | Some ip \<Rightarrow>
          (case cstr (heap w) (output_path (params c)) of
             None \<Rightarrow> (Fault, at_stage (1 / 10) ''Loading model'' c, add_events (ev_load c) w)
           | Some op \<Rightarrow>
              if fs_is_directory E ip \<or> extension ip = ''.bin'' \<or>
                 extension ip = ''.safetensors''
              then full_conversion E ip op q
                     (at_stage (1 / 10) ''Loading model'' c, add_events (ev_load c) w)
              else if extension ip = ''.gguf''
              then quantize_existing E ip op q
                     (at_stage (1 / 10) ''Loading model'' c, add_events (ev_load c) w)
              else (Return GGUF_ERROR_INVALID_FORMAT, at_stage (1 / 10) ''Loading model'' c,
                    set_error (''Unsupported input format: '' @ extension ip)
                      (add_events (ev_load c @ [llama_backend_free]) w)))))"
  by (simp add: convert_try_def step_eqs ev_start_def ev_load_def Let_def
      split: option.splits)

lemma gguf_convert_eq:
  assumes "ctx_at (heap w) h = Some c"
  shows "gguf_convert E h w =
     (case convert_try E (c, w) of
        (Raise e, c', w') \<Rightarrow>
          (Return GGUF_ERROR_CONVERSION_FAILED,
           store_ctx h c'
             (add_events (ev_log c' 3 (''Conversion error: '' @ what e) @ [llama_backend_free])
                (set_error (''Conversion error: '' @ what e) w')))
      | (r, c', w') \<Rightarrow> (r, store_ctx h c' w'))"
proof -
  from assms have "h \<noteq> nullptr" by auto
  then show ?thesis using assms
    by (simp add: gguf_convert_def step_eqs Let_def split: prod.splits result.splits)
qed

subsection \<open>Creation copies the strings into new cells\<close>

lemma cstr_append: "cstr h p = Some s \<Longrightarrow> cstr (h @ ys) p = Some s"
  by (cases p) (auto simp: lookup_def nth_append split: if_splits option.splits obj.splits)

lemma dup_field_ok:
  assumes "null_or_string h p"
  shows "\<exists>p' ys. dup_field p h = Some (p', h @ ys) \<and> cstr (h @ ys) p' = cstr h p \<and>
           owned (length h) (h @ ys) p'"
proof (cases "p = nullptr")
  case True
  then show ?thesis by (simp add: dup_field_def)
next
  case False
  with assms obtain s where s: "cstr h p = Some s" by (auto simp: null_or_string_def)
  then have "dup_field p h = Some (heap_ptr (length h), h @ [Some (CStr s)])"
    using False by (simp add: dup_field_def)
  then show ?thesis using s by (auto simp: lookup_def)
qed

lemma owned_mono: "owned n h p \<Longrightarrow> m \<le> n \<Longrightarrow> owned m (h @ ys) p"
  by (cases p) auto

lemma null_or_string_append: "null_or_string h p \<Longrightarrow> null_or_string (h @ ys) p"
  by (auto simp: null_or_string_def dest: cstr_append)

lemma cstr_append_eq: "null_or_string h p \<Longrightarrow> cstr (h @ ys) p = cstr h p"
  by (auto simp: null_or_string_def dest: cstr_append)

lemma cstr_owned_append: "owned n h p \<Longrightarrow> cstr (h @ ys) p = cstr h p"
  by (cases p) (auto simp: lookup_def nth_append)

lemma cstr_owned_update: "owned (Suc a) h p \<Longrightarrow> cstr (list_update h a x) p = cstr h p"
  by (cases p) (auto simp: lookup_def)

lemma create_context_success:
  assumes ip: "cstr (heap w) (input_path p) = Some ip" and ex: "fs_exists E ip = Inr True"
    and op: "cstr (heap w) (output_path p) = Some op"
    and mt: "null_or_string (heap w) (model_type p)"
    and q: "null_or_string (heap w) (quantization p)"
    and vt: "null_or_string (heap w) (vocab_type p)"
  shows "\<exists>c w1. gguf_create_context E (Some p) w = (Return (heap_ptr (length (heap w))), w1) \<and>
      ctx_at (heap w1) (heap_ptr (length (heap w))) = Some c \<and>
      progress c = 0 \<and> \<not> cancelled c \<and> current_stage c = [] \<and>
      cstr (heap w1) (input_path (params c)) = Some ip \<and>
      cstr (heap w1) (output_path (params c)) = Some op \<and>
      cstr (heap w1) (model_type (params c)) = cstr (heap w) (model_type p) \<and>
      cstr (heap w1) (quantization (params c)) = cstr (heap w) (quantization p) \<and>
      cstr (heap w1) (vocab_type (params c)) = cstr (heap w) (vocab_type p) \<and>
      owned (Suc (length (heap w))) (heap w1) (input_path (params c)) \<and>
      owned (Suc (length (heap w))) (heap w1) (output_path (params c)) \<and>
      owned (Suc (length (heap w))) (heap w1) (model_type (params c)) \<and>
      owned (Suc (length (heap w))) (heap w1) (quantization (params c)) \<and>
      owned (Suc (length (heap w))) (heap w1) (vocab_type (params c)) \<and>
      take (length (heap w)) (heap w1) = heap w \<and>
      params c = p\<lparr>input_path := input_path (params c), output_path := output_path (params c),
                    model_type := model_type (params c), quantization := quantization (params c),
                    vocab_type := vocab_type (params c)\<rparr> \<and>
      last_error w1 = last_error w \<and> format_str w1 = format_str w \<and>
      trace w1 = trace w @ ev_log c 1 (''Created conversion context: '' @ ip @ '' -> '' @ op)"
proof -
  let ?a = "length (heap w)"
  let ?h0 = "heap w @ [Some (Ctx (new_ctx\<lparr>params := p\<rparr>))]"
  have nn: "input_path p \<noteq> nullptr" "output_path p \<noteq> nullptr" using ip op by auto
  have s_ip: "null_or_string (heap w) (input_path p)" and s_op: "null_or_string (heap w) (output_path p)"
    using ip op by (simp_all add: null_or_string_def)
  from dup_field_ok [OF null_or_string_append [OF s_ip], of "[Some (Ctx (new_ctx\<lparr>params := p\<rparr>))]"]
  obtain p1 y1 where d1: "dup_field (input_path p) ?h0 = Some (p1, ?h0 @ y1)"
    and c1: "cstr (?h0 @ y1) p1 = cstr ?h0 (input_path p)"
    and o1: "owned (length ?h0) (?h0 @ y1) p1" by blast
  let ?h1 = "?h0 @ y1"
  from dup_field_ok [OF null_or_string_append [OF s_op], of "[Some (Ctx (new_ctx\<lparr>params := p\<rparr>))] @ y1"]
  obtain p2 y2 where d2: "dup_field (output_path p) ?h1 = Some (p2, ?h1 @ y2)"
    and c2: "cstr (?h1 @ y2) p2 = cstr ?h1 (output_path p)"
    and o2: "owned (length ?h1) (?h1 @ y2) p2" by auto
  let ?h2 = "?h1 @ y2"
  from dup_field_ok [OF null_or_string_append [OF mt], of "[Some (Ctx (new_ctx\<lparr>params := p\<rparr>))] @ y1 @ y2"]
  obtain p3 y3 where d3: "dup_field (model_type p) ?h2 = Some (p3, ?h2 @ y3)"
    and c3: "cstr (?h2 @ y3) p3 = cstr ?h2 (model_type p)"
    and o3: "owned (length ?h2) (?h2 @ y3) p3" by auto
  let ?h3 = "?h2 @ y3"
  from dup_field_ok [OF null_or_string_append [OF q], of "[Some (Ctx (new_ctx\<lparr>params := p\<rparr>))] @ y1 @ y2 @ y3"]
  obtain p4 y4 where d4: "dup_field (quantization p) ?h3 = Some (p4, ?h3 @ y4)"
    and c4: "cstr (?h3 @ y4) p4 = cstr ?h3 (quantization p)"
    and o4: "owned (length ?h3) (?h3 @ y4) p4" by auto
  let ?h4 = "?h3 @ y4"
  from dup_field_ok [OF null_or_string_append [OF vt], of "[Some (Ctx (new_ctx\<lparr>params := p\<rparr>))] @ y1 @ y2 @ y3 @ y4"]
  obtain p5 y5 where d5: "dup_field (vocab_type p) ?h4 = Some (p5, ?h4 @ y5)"
    and c5: "cstr (?h4 @ y5) p5 = cstr ?h4 (vocab_type p)"
    and o5: "owned (length ?h4) (?h4 @ y5) p5" by auto
  let ?h5 = "?h4 @ y5"
  define c where "c = new_ctx\<lparr>params := p\<lparr>input_path := p1, output_path := p2,
                       model_type := p3, quantization := p4, vocab_type := p5\<rparr>\<rparr>"
  define h5 where "h5 = ?h4 @ y5"
  define w1 where "w1 = ctx_log c 1 (''Created conversion context: '' @ ip @ '' -> '' @ op)
               (w\<lparr>heap := list_update h5 ?a (Some (Ctx c))\<rparr>)"
  have res: "gguf_create_context E (Some p) w = (Return (heap_ptr ?a), w1)"
    using nn ip ex op d1 d2 d3 d4 d5
    by (simp add: gguf_create_context_def Let_def c_def h5_def w1_def)
  have hw1: "heap w1 = list_update h5 ?a (Some (Ctx c))"
    by (simp add: ctx_log_eq w1_def)
  have lt: "?a < length h5" by (simp add: h5_def)
  have ctx: "ctx_at (heap w1) (heap_ptr ?a) = Some c"
    using lt by (simp add: hw1 lookup_def)
  have upd: "\<And>p'. owned (Suc ?a) h5 p' \<Longrightarrow> cstr (heap w1) p' = cstr h5 p'"
    by (simp add: hw1 cstr_owned_update)
  have own: "\<And>p'. owned (Suc ?a) h5 p' \<Longrightarrow> owned (Suc ?a) (heap w1) p'"
    subgoal for p' by (cases p') (simp_all add: hw1) done
  have O1: "owned (Suc ?a) h5 p1"
    using owned_mono [OF o1, of "Suc ?a" "y2 @ y3 @ y4 @ y5"] by (simp add: h5_def)
  have O2: "owned (Suc ?a) h5 p2"
    using owned_mono [OF o2, of "Suc ?a" "y3 @ y4 @ y5"] by (simp add: h5_def)
  have O3: "owned (Suc ?a) h5 p3"
    using owned_mono [OF o3, of "Suc ?a" "y4 @ y5"] by (simp add: h5_def)
  have O4: "owned (Suc ?a) h5 p4"
    using owned_mono [OF o4, of "Suc ?a" "y5"] by (simp add: h5_def)
  have O5: "owned (Suc ?a) h5 p5"
    using owned_mono [OF o5, of "Suc ?a" "[]"] by (simp add: h5_def)
  have C1: "cstr h5 p1 = Some ip"
    using cstr_owned_append [OF o1, of "y2 @ y3 @ y4 @ y5"] c1 cstr_append [OF ip]
    by (simp add: h5_def)
  have C2: "cstr h5 p2 = Some op"
    using cstr_owned_append [OF o2, of "y3 @ y4 @ y5"] c2 cstr_append [OF op]
    by (simp add: h5_def)
  have C3: "cstr h5 p3 = cstr (heap w) (model_type p)"
    using cstr_owned_append [OF o3, of "y4 @ y5"] c3
      cstr_append_eq [OF mt, of "[Some (Ctx (new_ctx\<lparr>params := p\<rparr>))] @ y1 @ y2"]
    by (simp add: h5_def)
  have C4: "cstr h5 p4 = cstr (heap w) (quantization p)"
    using cstr_owned_append [OF o4, of "y5"] c4
      cstr_append_eq [OF q, of "[Some (Ctx (new_ctx\<lparr>params := p\<rparr>))] @ y1 @ y2 @ y3"]
    by (simp add: h5_def)
  have C5: "cstr h5 p5 = cstr (heap w) (vocab_type p)"
    using c5
      cstr_append_eq [OF vt, of "[Some (Ctx (new_ctx\<lparr>params := p\<rparr>))] @ y1 @ y2 @ y3 @ y4"]
    by (simp add: h5_def)
  have pc: "input_path (params c) = p1" "output_path (params c) = p2"
    "model_type (params c) = p3" "quantization (params c) = p4" "vocab_type (params c) = p5"
    by (simp_all add: c_def)
  have tk: "take ?a (heap w1) = heap w" by (simp add: hw1 h5_def)
  have misc: "progress c = 0" "\<not> cancelled c" "current_stage c = []"
    "params c = p\<lparr>input_path := input_path (params c), output_path := output_path (params c),
                    model_type := model_type (params c), quantization := quantization (params c),
                    vocab_type := vocab_type (params c)\<rparr>"
    by (simp_all add: new_ctx_def c_def)
  have tr: "last_error w1 = last_error w" "format_str w1 = format_str w"
    "trace w1 = trace w @ ev_log c 1 (''Created conversion context: '' @ ip @ '' -> '' @ op)"
    by (simp_all add: ctx_log_eq w1_def)
  have G: "cstr (heap w1) (input_path (params c)) = Some ip"
    "cstr (heap w1) (output_path (params c)) = Some op"
    "cstr (heap w1) (model_type (params c)) = cstr (heap w) (model_type p)"
    "cstr (heap w1) (quantization (params c)) = cstr (heap w) (quantization p)"
    "cstr (heap w1) (vocab_type (params c)) = cstr (heap w) (vocab_type p)"
    using upd [OF O1] upd [OF O2] upd [OF O3] upd [OF O4] upd [OF O5] C1 C2 C3 C4 C5
    by (simp_all only: pc)
  have H: "owned (Suc ?a) (heap w1) (input_path (params c))"
    "owned (Suc ?a) (heap w1) (output_path (params c))"
    "owned (Suc ?a) (heap w1) (model_type (params c))"
    "owned (Suc ?a) (heap w1) (quantization (params c))"
    "owned (Suc ?a) (heap w1) (vocab_type (params c))"
    using own [OF O1] own [OF O2] own [OF O3] own [OF O4] own [OF O5]
    by (simp_all only: pc)
  show ?thesis
    by (rule exI [of _ c], rule exI [of _ w1]) (intro conjI; fact)
qed

subsection \<open>Null handles and null pointers\<close>

text \<open>
  Claim C9. Every public operation that takes a handle or a pointer accepts the null
  pointer: freeing and cancelling a null handle change nothing, the progress of a null
  handle is the sentinel -1, a null handle is not cancelled (0), the default parameters
  of a null struct are a no-op, the format of a null path is null; validation,
  conversion, creation and file verification answer a null argument with an error code
  or a null handle.
\<close>

theorem null_arguments_tolerated:
  "gguf_free_context nullptr w = (Return (), w) \<and>
   gguf_cancel nullptr w = (Return (), w) \<and>
   gguf_get_progress nullptr w = Return (- 1) \<and>
   gguf_is_cancelled nullptr w = Return 0 \<and>
   gguf_default_params None = None \<and>
   gguf_detect_format E None w = (Return None, w) \<and>
   gguf_validate_input E nullptr info w =
     (Return GGUF_ERROR_INVALID_ARGS, info, set_error ''Invalid context'' w) \<and>
   gguf_convert E nullptr w = (Return GGUF_ERROR_INVALID_ARGS, set_error ''Invalid context'' w) \<and>
   gguf_create_context E None w =
     (Return nullptr,
      set_error ''Invalid parameters: input_path and output_path are required'' w) \<and>
   gguf_verify_file E None info w =
     (Return GGUF_ERROR_INVALID_ARGS, info, set_error ''Invalid path'' w)"
  by (simp add: gguf_free_context_def gguf_cancel_def gguf_get_progress_def
      gguf_is_cancelled_def gguf_default_params_def gguf_detect_format_def
      gguf_validate_input_def gguf_convert_def gguf_create_context_def gguf_verify_file_def)

theorem null_arguments_tolerated_witness:
  "gguf_free_context nullptr (created_world ''m.gguf'' ''out.gguf'' ''f16'') =
     (Return (), created_world ''m.gguf'' ''out.gguf'' ''f16'') \<and>
   gguf_cancel nullptr (created_world ''m.gguf'' ''out.gguf'' ''f16'') =
     (Return (), created_world ''m.gguf'' ''out.gguf'' ''f16'') \<and>
   gguf_get_progress nullptr (created_world ''m.gguf'' ''out.gguf'' ''f16'') = Return (- 1) \<and>
   gguf_is_cancelled nullptr (created_world ''m.gguf'' ''out.gguf'' ''f16'') = Return 0 \<and>
   gguf_default_params None = None \<and>
   gguf_detect_format example_env None (created_world ''m.gguf'' ''out.gguf'' ''f16'') =
     (Return None, created_world ''m.gguf'' ''out.gguf'' ''f16'')"
  using null_arguments_tolerated
    [of "created_world ''m.gguf'' ''out.gguf'' ''f16''" example_env None]
  by simp

subsection \<open>Format detection\<close>



lemma example_detect_hf:
  "detect_format_impl example_env ''hf'' = Inr ''safetensors''"
  by (simp add: detect_format_impl_def directory_format_def and_then_def or_else_def
      example_exists path_append_def extension_def filename_def Let_def)
    (simp add: example_env_def)



subsection \<open>Cancellation\<close>

lemma emitted_store_ctx: "emitted w (store_ctx h c w') = emitted w w'"
  by (cases h) (simp_all add: store_ctx_def emitted_def)

lemma convert_try_cancelled:
  "cancelled c \<Longrightarrow>
   \<exists>c' w'. convert_try E (c, w) = (Return GGUF_ERROR_CANCELLED, c', w') \<and>
     filter is_backend_event (emitted w w') = []"
  by (simp add: convert_try_def set_progress_def ctx_log_def Let_def emit_def set_error_def
      emitted_def)

lemma convert_cancelled:
  assumes "ctx_at (heap w) h = Some c" and "cancelled c"
  shows "fst (gguf_convert E h w) = Return GGUF_ERROR_CANCELLED \<and>
         filter is_backend_event (emitted w (snd (gguf_convert E h w))) = []"
proof -
  from assms(1) obtain a where a: "h = heap_ptr a"
    using ctx_at_SomeD by blast
  from convert_try_cancelled [OF assms(2), of E w] obtain c' w' where
    t: "convert_try E (c, w) = (Return GGUF_ERROR_CANCELLED, c', w')"
       "filter is_backend_event (emitted w w') = []" by blast
  have "gguf_convert E h w = (Return GGUF_ERROR_CANCELLED, store_ctx h c' w')"
    using assms(1) a t(1) by (simp add: gguf_convert_def)
  then show ?thesis using t(2) by (simp add: emitted_store_ctx)
qed

text \<open>
  Claim C7. On a live context, \<^verbatim>\<open>gguf_cancel\<close> sets the flag (\<^verbatim>\<open>gguf_is_cancelled\<close> then
  returns 1), and \<^verbatim>\<open>gguf_convert\<close> called next returns \<^verbatim>\<open>GGUF_ERROR_CANCELLED\<close> and
  calls neither \<^verbatim>\<open>llama_backend_init\<close>, nor \<^verbatim>\<open>system\<close>, nor \<^verbatim>\<open>llama_model_quantize\<close>,
  nor \<^verbatim>\<open>llama_backend_free\<close>. The same holds in any later state in which the flag is
  still set.
\<close>

theorem cancel_before_convert:
  assumes "ctx_at (heap w) h = Some c"
  shows "gguf_is_cancelled h (snd (gguf_cancel h w)) = Return 1 \<and>
         fst (gguf_convert E h (snd (gguf_cancel h w))) = Return GGUF_ERROR_CANCELLED \<and>
         filter is_backend_event
           (emitted (snd (gguf_cancel h w))
              (snd (gguf_convert E h (snd (gguf_cancel h w))))) = [] \<and>
         (cancelled c \<longrightarrow>
            fst (gguf_convert E h w) = Return GGUF_ERROR_CANCELLED \<and>
            filter is_backend_event (emitted w (snd (gguf_convert E h w))) = [])"
proof -
  from assms obtain a where a: "h = heap_ptr a" "a < length (heap w)"
    using ctx_at_SomeD by blast
  let ?w1 = "snd (gguf_cancel h w)"
  have c1: "ctx_at (heap ?w1) h = Some (c\<lparr>cancelled := True\<rparr>)"
    using assms a
    by (simp add: gguf_cancel_def Let_def ctx_log_def emit_def store_ctx_def lookup_def)
  have "gguf_is_cancelled h ?w1 = Return 1"
    using c1 a by (simp add: gguf_is_cancelled_def)
  moreover have "cancelled (c\<lparr>cancelled := True\<rparr>)" by simp
  ultimately show ?thesis
    using convert_cancelled [OF c1] convert_cancelled [OF assms] by blast
qed

theorem cancel_before_convert_witness:
  "ctx_at (heap (created_world ''m.gguf'' ''out.gguf'' ''f16'')) (heap_ptr 3) =
     Some created_ctx \<and>
   gguf_is_cancelled (heap_ptr 3)
     (snd (gguf_cancel (heap_ptr 3) (created_world ''m.gguf'' ''out.gguf'' ''f16''))) =
     Return 1 \<and>
   fst (gguf_convert example_env (heap_ptr 3)
     (snd (gguf_cancel (heap_ptr 3) (created_world ''m.gguf'' ''out.gguf'' ''f16'')))) =
     Return GGUF_ERROR_CANCELLED \<and>
   filter is_backend_event
     (emitted (snd (gguf_cancel (heap_ptr 3) (created_world ''m.gguf'' ''out.gguf'' ''f16'')))
        (snd (gguf_convert example_env (heap_ptr 3)
           (snd (gguf_cancel (heap_ptr 3)
              (created_world ''m.gguf'' ''out.gguf'' ''f16'')))))) = []"
  using cancel_before_convert [OF created_ctx_at, of "''m.gguf''" "''out.gguf''" "''f16''" example_env]
    created_ctx_at [of "''m.gguf''" "''out.gguf''" "''f16''"]
  by simp

subsection \<open>Validation of the quantization identifier\<close>

lemma valid_quant_iff: "valid_quant q ts \<longleftrightarrow> q \<in> set ts"
  by (induction ts) auto

lemma gguf_convert_fst:
  "ctx_at (heap w) h = Some c \<Longrightarrow>
   fst (gguf_convert E h w) =
     (case fst (convert_try E (c, w)) of
        Raise e \<Rightarrow> Return GGUF_ERROR_CONVERSION_FAILED | r \<Rightarrow> r)"
  by (simp add: gguf_convert_eq split: prod.splits result.splits)

lemma full_conversion_not_invalid_quant:
  "fst (full_conversion E ip op q s) \<noteq> Return GGUF_ERROR_INVALID_QUANTIZATION"
  by (cases s) (simp add: full_conversion_eq Let_def)

lemma quantize_existing_not_invalid_quant:
  "fst (quantize_existing E ip op q s) \<noteq> Return GGUF_ERROR_INVALID_QUANTIZATION"
  by (cases s) (simp add: quantize_existing_eq Let_def split: sum.splits)

lemma convert_valid_quant:
  assumes "ctx_at (heap w) h = Some c" "cstr (heap w) (quantization (params c)) = Some q"
    "valid_quant q QUANTIZATION_TYPES"
  shows "fst (gguf_convert E h w) \<noteq> Return GGUF_ERROR_INVALID_QUANTIZATION"
proof -
  have "fst (convert_try E (c, w)) \<noteq> Return GGUF_ERROR_INVALID_QUANTIZATION"
    using assms(2,3) full_conversion_not_invalid_quant quantize_existing_not_invalid_quant
    by (simp add: convert_try_eq split: option.splits)
  then show ?thesis
    by (auto simp: gguf_convert_fst [OF assms(1)] split: result.splits)
qed

lemma convert_invalid_quant:
  assumes "ctx_at (heap w) h = Some c" "\<not> cancelled c"
    "cstr (heap w) (quantization (params c)) = Some q"
    "\<not> valid_quant q QUANTIZATION_TYPES"
  shows "gguf_convert E h w =
     (Return GGUF_ERROR_INVALID_QUANTIZATION,
      store_ctx h (at_stage 0 ''Initializing conversion'' c)
        (set_error (''Invalid quantization type: '' @ q) (add_events (ev_start c) w)))"
  using assms by (simp add: gguf_convert_eq convert_try_eq)

text \<open>
  Claim C3. Take parameters whose input path, output path and quantization are strings,
  with an input path that exists. \<^verbatim>\<open>gguf_create_context\<close> returns a context whatever
  the quantization string is. If the string is not one of the seventeen of
  \<^verbatim>\<open>QUANTIZATION_TYPES\<close>, \<^verbatim>\<open>gguf_convert\<close> on that context returns
  \<^verbatim>\<open>GGUF_ERROR_INVALID_QUANTIZATION\<close>, names the string in the last error, and calls
  nothing of the backend: no runtime initialisation, no process, no quantize call, so
  nothing is written to the output path. If it is one of the seventeen, \<^verbatim>\<open>gguf_convert\<close>
  does not return \<^verbatim>\<open>GGUF_ERROR_INVALID_QUANTIZATION\<close>, on a \<^verbatim>\<open>.gguf\<close> input or any other.
\<close>

theorem quantization_checked_at_convert:
  assumes "cstr (heap w) (input_path p) = Some ip" and "fs_exists E ip = Inr True"
    and "cstr (heap w) (output_path p) = Some op"
    and "cstr (heap w) (quantization p) = Some q"
    and "null_or_string (heap w) (model_type p)"
    and "null_or_string (heap w) (vocab_type p)"
  shows "\<exists>a w1. gguf_create_context E (Some p) w = (Return (heap_ptr a), w1) \<and>
     (q \<notin> set QUANTIZATION_TYPES \<longrightarrow>
        fst (gguf_convert E (heap_ptr a) w1) = Return GGUF_ERROR_INVALID_QUANTIZATION \<and>
        last_error (snd (gguf_convert E (heap_ptr a) w1)) = ''Invalid quantization type: '' @ q \<and>
        filter is_backend_event (emitted w1 (snd (gguf_convert E (heap_ptr a) w1))) = []) \<and>
     (q \<in> set QUANTIZATION_TYPES \<longrightarrow>
        fst (gguf_convert E (heap_ptr a) w1) \<noteq> Return GGUF_ERROR_INVALID_QUANTIZATION)"
proof -
  have nq: "null_or_string (heap w) (quantization p)"
    using assms(4) by (simp add: null_or_string_def)
  from create_context_success [OF assms(1,2,3,5) nq assms(6)]
  obtain c w1 where
    r: "gguf_create_context E (Some p) w = (Return (heap_ptr (length (heap w))), w1)"
    and c: "ctx_at (heap w1) (heap_ptr (length (heap w))) = Some c"
    and nc: "\<not> cancelled c"
    and q: "cstr (heap w1) (quantization (params c)) = cstr (heap w) (quantization p)"
    by blast
  from q assms(4) have q': "cstr (heap w1) (quantization (params c)) = Some q" by simp
  show ?thesis
  proof (intro exI conjI impI)
    show "gguf_create_context E (Some p) w = (Return (heap_ptr (length (heap w))), w1)"
      by (rule r)
  next
    assume "q \<notin> set QUANTIZATION_TYPES"
    then have nv: "\<not> valid_quant q QUANTIZATION_TYPES" by (simp add: valid_quant_iff)
    note e = convert_invalid_quant [OF c nc q' nv, of E]
    show "fst (gguf_convert E (heap_ptr (length (heap w))) w1) =
        Return GGUF_ERROR_INVALID_QUANTIZATION" by (simp add: e)
    show "last_error (snd (gguf_convert E (heap_ptr (length (heap w))) w1)) =
        ''Invalid quantization type: '' @ q" by (simp add: e store_ctx_def)
    show "filter is_backend_event
        (emitted w1 (snd (gguf_convert E (heap_ptr (length (heap w))) w1))) = []"
      by (simp add: e)
  next
    assume "q \<in> set QUANTIZATION_TYPES"
    then have "valid_quant q QUANTIZATION_TYPES" by (simp add: valid_quant_iff)
    from convert_valid_quant [OF c q' this]
    show "fst (gguf_convert E (heap_ptr (length (heap w))) w1) \<noteq>
        Return GGUF_ERROR_INVALID_QUANTIZATION" .
  qed
qed

theorem quantization_checked_at_convert_witness:
  "cstr (heap (caller_world ''m.gguf'' ''out.gguf'' ''q4_k'')) (input_path caller_params) =
     Some ''m.gguf'' \<and>
   fs_exists example_env ''m.gguf'' = Inr True \<and>
   ''q4_k'' \<notin> set QUANTIZATION_TYPES \<and>
   gguf_create_context example_env (Some caller_params)
     (caller_world ''m.gguf'' ''out.gguf'' ''q4_k'') =
     (Return (heap_ptr 3), created_world ''m.gguf'' ''out.gguf'' ''q4_k'') \<and>
   fst (gguf_convert example_env (heap_ptr 3) (created_world ''m.gguf'' ''out.gguf'' ''q4_k'')) =
     Return GGUF_ERROR_INVALID_QUANTIZATION \<and>
   filter is_backend_event
     (emitted (created_world ''m.gguf'' ''out.gguf'' ''q4_k'')
        (snd (gguf_convert example_env (heap_ptr 3)
                (created_world ''m.gguf'' ''out.gguf'' ''q4_k'')))) = [] \<and>
   ''q4_k_m'' \<in> set QUANTIZATION_TYPES \<and>
   fst (gguf_convert example_env (heap_ptr 3) (created_world ''m.gguf'' ''out.gguf'' ''q4_k_m'')) \<noteq>
     Return GGUF_ERROR_INVALID_QUANTIZATION"
proof -
  have ex: "fs_exists example_env ''m.gguf'' = Inr True" by (rule example_exists)
  have p: "cstr (heap (caller_world ''m.gguf'' ''out.gguf'' q)) (input_path caller_params) =
        Some ''m.gguf''"
      "cstr (heap (caller_world ''m.gguf'' ''out.gguf'' q)) (output_path caller_params) =
        Some ''out.gguf''"
      "cstr (heap (caller_world ''m.gguf'' ''out.gguf'' q)) (quantization caller_params) = Some q"
      "null_or_string (heap (caller_world ''m.gguf'' ''out.gguf'' q)) (model_type caller_params)"
      "null_or_string (heap (caller_world ''m.gguf'' ''out.gguf'' q)) (vocab_type caller_params)"
    for q
    by (simp_all add: caller_world_def caller_params_def lookup_def null_or_string_def)
  have m: "''q4_k'' \<notin> set QUANTIZATION_TYPES" "''q4_k_m'' \<in> set QUANTIZATION_TYPES"
    by (simp_all add: QUANTIZATION_TYPES_def)
  show ?thesis
    using quantization_checked_at_convert [OF p(1) ex p(2,3,4,5), of "''q4_k''"]
      quantization_checked_at_convert [OF p(1) ex p(2,3,4,5), of "''q4_k_m''"]
      created_world_eq [OF ex] ex p(1) [of "''q4_k''"] m
    by auto
qed

subsection \<open>The dispatch of \<^verbatim>\<open>gguf_convert\<close>\<close>

lemma map_filter_append: "List.map_filter f (xs @ ys) = List.map_filter f xs @ List.map_filter f ys"
  by (simp add: List.map_filter_def)

lemma progress_events [simp]:
  "List.map_filter progress_of (ev_log c l m) = []"
  "progress_cb (params c) \<noteq> nullptr \<Longrightarrow>
     List.map_filter progress_of (ev_progress c p st) = [(p, Some st)]"
  "progress_cb (params c) = nullptr \<Longrightarrow> List.map_filter progress_of (ev_progress c p st) = []"
  by (simp_all add: ev_log_def ev_progress_def List.map_filter_def)


lemma convert_quantize:
  assumes "ctx_at (heap w) h = Some c" and "\<not> cancelled c"
    and "cstr (heap w) (quantization (params c)) = Some q"
    and "valid_quant q QUANTIZATION_TYPES"
    and "cstr (heap w) (input_path (params c)) = Some ip"
    and "cstr (heap w) (output_path (params c)) = Some op"
    and "\<not> fs_is_directory E ip" and "extension ip = ''.gguf''"
  shows "gguf_convert E h w =
     (let evs = ev_load c @ ev_progress c (2 / 10) ''Preparing quantization parameters'' @
                ev_progress c (3 / 10) ''Starting quantization process'' @
                [llama_model_quantize_call ip op (target_ftype q) (num_threads (params c))]
      in case quantize_result E ip op (target_ftype q) (num_threads (params c)) of
           Inl e \<Rightarrow>
             (Return GGUF_ERROR_CONVERSION_FAILED,
              store_ctx h (at_stage (3 / 10) ''Starting quantization process'' c)
                (set_error (''Conversion error: '' @ what e)
                   (add_events (evs @ ev_log c 3 (''Conversion error: '' @ what e) @
                      [llama_backend_free]) w)))
         | Inr result \<Rightarrow>
            if result \<noteq> 0
            then (Return GGUF_ERROR_CONVERSION_FAILED,
                  store_ctx h (at_stage (3 / 10) ''Starting quantization process'' c)
                    (set_error (''llama.cpp quantization failed with code: '' @
                                string_of_nat result)
                       (add_events (evs @ [llama_backend_free]) w)))
            else (Return GGUF_SUCCESS,
                  store_ctx h (at_stage 1 ''Complete'' c)
                    (add_events (evs @ ev_progress c 1 ''Complete'' @
                       ev_log c 1 ''Conversion completed successfully'' @
                       [llama_backend_free]) w)))"
  using assms(2-)
  by (simp add: gguf_convert_eq [OF assms(1)] convert_try_eq quantize_existing_eq Let_def
      split: sum.splits)


lemma last_error_store_ctx [simp]: "last_error (store_ctx h c w) = last_error w"
  by (cases h) (simp_all add: store_ctx_def)


lemma created_facts:
  "\<not> cancelled created_ctx"
  "cstr (heap (created_world ip op q)) (quantization (params created_ctx)) = Some q"
  "cstr (heap (created_world ip op q)) (input_path (params created_ctx)) = Some ip"
  "cstr (heap (created_world ip op q)) (output_path (params created_ctx)) = Some op"
  "null_or_string (heap (created_world ip op q)) (model_type (params created_ctx))"
  "vocab_only (params created_ctx) = 0"
  "num_threads (params created_ctx) = 0"
  "cstr (heap (created_world ip op q)) (model_type (params created_ctx)) = None"
  by (simp_all add: created_world_def created_ctx_def caller_params_def lookup_def
      null_or_string_def)

lemma example_extensions:
  "extension ''hf'' = []" "extension ''m.gguf'' = ''.gguf''" "extension ''model.pt'' = ''.pt''"
  "extension ''model.onnx'' = ''.onnx''"
  by (simp_all add: extension_def filename_def)

lemma example_directories:
  "fs_is_directory example_env ''hf''" "\<not> fs_is_directory example_env ''m.gguf''"
  "\<not> fs_is_directory example_env ''model.pt''" "\<not> fs_is_directory example_env ''model.onnx''"
  by (simp_all add: example_env_def)




subsection \<open>The table from quantization identifiers to backend types\<close>

text \<open>
  Claim C2 fails on the code at \<^verbatim>\<open>q8_1\<close>: the identifier is in
  \<^verbatim>\<open>QUANTIZATION_TYPES\<close>, so it passes the validation, but the chain that sets
  \<^verbatim>\<open>target_ftype\<close> has no case for it, and a \<^verbatim>\<open>.gguf\<close> input is quantized with the
  default \<^verbatim>\<open>LLAMA_FTYPE_MOSTLY_F16\<close>, the type of \<^verbatim>\<open>f16\<close>; the conversion reports
  success.
\<close>

theorem q8_1_falls_back_to_f16:
  "''q8_1'' \<in> set QUANTIZATION_TYPES \<and>
   target_ftype ''q8_1'' = LLAMA_FTYPE_MOSTLY_F16 \<and>
   target_ftype ''f16'' = LLAMA_FTYPE_MOSTLY_F16 \<and>
   fst (gguf_convert example_env (heap_ptr 3) (created_world ''m.gguf'' ''out.gguf'' ''q8_1'')) =
     Return GGUF_SUCCESS \<and>
   filter is_backend_event
     (emitted (created_world ''m.gguf'' ''out.gguf'' ''q8_1'')
        (snd (gguf_convert example_env (heap_ptr 3)
                (created_world ''m.gguf'' ''out.gguf'' ''q8_1'')))) =
     [llama_backend_init,
      llama_model_quantize_call ''m.gguf'' ''out.gguf'' LLAMA_FTYPE_MOSTLY_F16 0,
      llama_backend_free]"
proof -
  have v: "valid_quant ''q8_1'' QUANTIZATION_TYPES" by (simp add: QUANTIZATION_TYPES_def)
  have t: "target_ftype ''q8_1'' = LLAMA_FTYPE_MOSTLY_F16"
    "target_ftype ''f16'' = LLAMA_FTYPE_MOSTLY_F16"
    by (simp_all add: target_ftype_def)
  have r: "quantize_result example_env ''m.gguf'' ''out.gguf'' LLAMA_FTYPE_MOSTLY_F16 0 = Inr 0"
    by (simp add: example_env_def)
  have m: "''q8_1'' \<in> set QUANTIZATION_TYPES" using v by (simp add: valid_quant_iff)
  show ?thesis
    using m t r
      convert_quantize [where E = example_env and h = "heap_ptr 3" and c = created_ctx
        and w = "created_world ''m.gguf'' ''out.gguf'' ''q8_1''" and q = "''q8_1''"
        and ip = "''m.gguf''" and op = "''out.gguf''"]
    by (simp add: v created_ctx_at created_facts example_extensions example_directories Let_def
        del: ctx_at.simps cstr.simps)
qed

subsection \<open>Progress\<close>

lemma dup_field_length: "dup_field p h = Some (p', h') \<Longrightarrow> length h \<le> length h'"
  by (auto simp: dup_field_def split: if_splits option.splits)

lemma create_context_returns_ctx:
  assumes "gguf_create_context E ps w = (Return (heap_ptr a), w1)"
  shows "\<exists>c. ctx_at (heap w1) (heap_ptr a) = Some c \<and> progress c = 0 \<and> \<not> cancelled c"
  using assms
  by (auto simp: gguf_create_context_def Let_def ctx_log_eq lookup_def new_ctx_def
      split: option.splits if_splits prod.splits sum.splits dest!: dup_field_length)

lemma convert_try_success:
  assumes "convert_try E (c, w) = (Return GGUF_SUCCESS, c', w'')"
  shows "c' = at_stage 1 ''Complete'' c \<and> heap w'' = heap w \<and>
    (progress_cb (params c) \<noteq> nullptr \<longrightarrow>
       List.map_filter progress_of (emitted w w'') =
         [(0, Some ''Initializing conversion''), (1 / 10, Some ''Loading model''),
          (2 / 10, Some ''Preparing conversion parameters''),
          (3 / 10, Some ''Executing conversion script''), (1, Some ''Complete'')] \<or>
       List.map_filter progress_of (emitted w w'') =
         [(0, Some ''Initializing conversion''), (1 / 10, Some ''Loading model''),
          (2 / 10, Some ''Preparing quantization parameters''),
          (3 / 10, Some ''Starting quantization process''), (1, Some ''Complete'')])"
  using assms
  by (auto simp: convert_try_eq full_conversion_eq quantize_existing_eq Let_def ev_load_def
      ev_start_def map_filter_append List.map_filter_simps
      split: if_splits option.splits sum.splits)

text \<open>
  Claim C8. The context that \<^verbatim>\<open>gguf_create_context\<close> returns has progress 0. When
  \<^verbatim>\<open>gguf_convert\<close> on a live context returns \<^verbatim>\<open>GGUF_SUCCESS\<close>, \<^verbatim>\<open>gguf_get_progress\<close>
  then returns 1, and, when a progress callback is set, the callback was called exactly
  five times, with the values 0, 0.1, 0.2, 0.3 and 1 in this order, which is
  non-decreasing, each time with a stage label: those of the full conversion or those
  of the quantization.
\<close>

theorem progress_checkpoints:
  "(gguf_create_context E ps w0 = (Return (heap_ptr a), w1) \<longrightarrow>
      gguf_get_progress (heap_ptr a) w1 = Return 0) \<and>
   (ctx_at (heap w) h = Some c \<and> gguf_convert E h w = (Return GGUF_SUCCESS, w') \<longrightarrow>
      gguf_get_progress h w' = Return 1 \<and>
      (progress_cb (params c) \<noteq> nullptr \<longrightarrow>
         map fst (List.map_filter progress_of (emitted w w')) = [0, 1 / 10, 2 / 10, 3 / 10, 1] \<and>
         sorted (map fst (List.map_filter progress_of (emitted w w'))) \<and>
         (map snd (List.map_filter progress_of (emitted w w')) =
            [Some ''Initializing conversion'', Some ''Loading model'',
             Some ''Preparing conversion parameters'', Some ''Executing conversion script'',
             Some ''Complete''] \<or>
          map snd (List.map_filter progress_of (emitted w w')) =
            [Some ''Initializing conversion'', Some ''Loading model'',
             Some ''Preparing quantization parameters'', Some ''Starting quantization process'',
             Some ''Complete''])))"
proof (intro conjI impI)
  assume "gguf_create_context E ps w0 = (Return (heap_ptr a), w1)"
  from create_context_returns_ctx [OF this]
  show "gguf_get_progress (heap_ptr a) w1 = Return 0"
    by (auto simp: gguf_get_progress_def)
next
  assume a: "ctx_at (heap w) h = Some c \<and> gguf_convert E h w = (Return GGUF_SUCCESS, w')"
  then have live: "ctx_at (heap w) h = Some c"
    and r: "gguf_convert E h w = (Return GGUF_SUCCESS, w')" by simp_all
  from live have hn: "h \<noteq> nullptr" by auto
  obtain r0 c' w'' where t: "convert_try E (c, w) = (r0, c', w'')"
    by (cases "convert_try E (c, w)") 
  from r t have r0: "r0 = Return GGUF_SUCCESS" and w': "w' = store_ctx h c' w''"
    by (auto simp: gguf_convert_eq [OF live] split: result.splits)
  note s = convert_try_success [OF t [unfolded r0]]
  from s have c': "c' = at_stage 1 ''Complete'' c" and hp: "heap w'' = heap w" by simp_all
  have em: "emitted w w' = emitted w w''" by (simp add: w')
  show "gguf_get_progress h w' = Return 1"
    using live hn hp
    by (cases h) (auto simp: gguf_get_progress_def w' c' store_ctx_def lookup_def split: if_splits)
  {
    assume cb: "progress_cb (params c) \<noteq> nullptr"
    with s have d: "List.map_filter progress_of (emitted w w') =
         [(0, Some ''Initializing conversion''), (1 / 10, Some ''Loading model''),
          (2 / 10, Some ''Preparing conversion parameters''),
          (3 / 10, Some ''Executing conversion script''), (1, Some ''Complete'')] \<or>
       List.map_filter progress_of (emitted w w') =
         [(0, Some ''Initializing conversion''), (1 / 10, Some ''Loading model''),
          (2 / 10, Some ''Preparing quantization parameters''),
          (3 / 10, Some ''Starting quantization process''), (1, Some ''Complete'')]"
      by (simp add: em)
    from d show "map fst (List.map_filter progress_of (emitted w w')) = [0, 1 / 10, 2 / 10, 3 / 10, 1]"
      by auto
    from d show "sorted (map fst (List.map_filter progress_of (emitted w w')))"
      by auto
    from d show "map snd (List.map_filter progress_of (emitted w w')) =
            [Some ''Initializing conversion'', Some ''Loading model'',
             Some ''Preparing conversion parameters'', Some ''Executing conversion script'',
             Some ''Complete''] \<or>
          map snd (List.map_filter progress_of (emitted w w')) =
            [Some ''Initializing conversion'', Some ''Loading model'',
             Some ''Preparing quantization parameters'', Some ''Starting quantization process'',
             Some ''Complete'']"
      by auto
  }
qed

lemma example_convert_succeeds:
  "fst (gguf_convert example_env (heap_ptr 3) (created_world ''m.gguf'' ''out.gguf'' ''f16'')) =
     Return GGUF_SUCCESS"
proof -
  have v: "valid_quant ''f16'' QUANTIZATION_TYPES" by (simp add: QUANTIZATION_TYPES_def)
  have r: "quantize_result example_env ''m.gguf'' ''out.gguf'' (target_ftype ''f16'') 0 = Inr 0"
    by (simp add: example_env_def)
  show ?thesis
    using r
      convert_quantize [where E = example_env and h = "heap_ptr 3" and c = created_ctx
        and w = "created_world ''m.gguf'' ''out.gguf'' ''f16''" and q = "''f16''"
        and ip = "''m.gguf''" and op = "''out.gguf''"]
    by (simp add: v created_ctx_at created_facts example_extensions example_directories Let_def
        del: ctx_at.simps cstr.simps)
qed

theorem progress_checkpoints_witness:
  "gguf_create_context example_env (Some caller_params)
     (caller_world ''m.gguf'' ''out.gguf'' ''f16'') =
     (Return (heap_ptr 3), created_world ''m.gguf'' ''out.gguf'' ''f16'') \<and>
   gguf_get_progress (heap_ptr 3) (created_world ''m.gguf'' ''out.gguf'' ''f16'') = Return 0 \<and>
   ctx_at (heap (created_world ''m.gguf'' ''out.gguf'' ''f16'')) (heap_ptr 3) =
     Some created_ctx \<and>
   fst (gguf_convert example_env (heap_ptr 3) (created_world ''m.gguf'' ''out.gguf'' ''f16'')) =
     Return GGUF_SUCCESS \<and>
   gguf_get_progress (heap_ptr 3)
     (snd (gguf_convert example_env (heap_ptr 3)
             (created_world ''m.gguf'' ''out.gguf'' ''f16''))) = Return 1 \<and>
   progress_cb (params created_ctx) \<noteq> nullptr \<and>
   map fst (List.map_filter progress_of
     (emitted (created_world ''m.gguf'' ''out.gguf'' ''f16'')
        (snd (gguf_convert example_env (heap_ptr 3)
                (created_world ''m.gguf'' ''out.gguf'' ''f16''))))) =
     [0, 1 / 10, 2 / 10, 3 / 10, 1]"
proof -
  have ex: "fs_exists example_env ''m.gguf'' = Inr True" by (rule example_exists)
  have cb: "progress_cb (params created_ctx) \<noteq> nullptr"
    by (simp add: created_ctx_def caller_params_def)
  have r: "gguf_convert example_env (heap_ptr 3) (created_world ''m.gguf'' ''out.gguf'' ''f16'') =
      (Return GGUF_SUCCESS,
       snd (gguf_convert example_env (heap_ptr 3)
              (created_world ''m.gguf'' ''out.gguf'' ''f16'')))"
    using example_convert_succeeds by (simp add: prod_eq_iff)
  show ?thesis
    using progress_checkpoints [where E = example_env and ps = "Some caller_params"
        and ?w0.0 = "caller_world ''m.gguf'' ''out.gguf'' ''f16''" and a = 3
        and ?w1.0 = "created_world ''m.gguf'' ''out.gguf'' ''f16''"
        and w = "created_world ''m.gguf'' ''out.gguf'' ''f16''" and h = "heap_ptr 3"
        and c = created_ctx
        and w' = "snd (gguf_convert example_env (heap_ptr 3)
                         (created_world ''m.gguf'' ''out.gguf'' ''f16''))"]
      created_world_eq [OF ex, of "''out.gguf''" "''f16''"]
      created_ctx_at [of "''m.gguf''" "''out.gguf''" "''f16''"] r cb example_convert_succeeds
    by (simp del: ctx_at.simps cstr.simps)
qed

subsection \<open>Validation of the input\<close>

lemma validate_frame_aux:
  "gguf_validate_input E h info w = (r, info', w') \<Longrightarrow>
     heap w' = heap w \<and> format_str w' = format_str w \<and>
     take (length (trace w)) (trace w') = trace w \<and>
     filter (\<lambda>e. \<not> is_log_event e) (emitted w w') = [] \<and>
     (info = None \<longrightarrow> info' = None)"
  by (auto simp: gguf_validate_input_def Let_def ctx_log_def set_error_def emit_def emitted_def
      split: if_splits option.splits prod.splits result.splits sum.splits)

text \<open>
  Claim C10. \<^verbatim>\<open>gguf_validate_input\<close> leaves the heap as it was, so the context behind the
  handle (parameter snapshot, progress, cancellation flag, stage label) and the strings
  it owns are the same after the call, for every handle and every result of the call.
  The trace before the call is kept and what the call adds are calls of the log
  callback only; \<^verbatim>\<open>format_str\<close> is not written; a null \<^verbatim>\<open>info\<close> stays null. What is left
  to change is the caller's \<^verbatim>\<open>info\<close> struct, the log channel and the last error.
\<close>

theorem validate_input_frame:
  "heap (snd (snd (gguf_validate_input E h info w))) = heap w \<and>
   ctx_at (heap (snd (snd (gguf_validate_input E h info w)))) h = ctx_at (heap w) h \<and>
   format_str (snd (snd (gguf_validate_input E h info w))) = format_str w \<and>
   take (length (trace w)) (trace (snd (snd (gguf_validate_input E h info w)))) = trace w \<and>
   filter (\<lambda>e. \<not> is_log_event e)
     (emitted w (snd (snd (gguf_validate_input E h info w)))) = [] \<and>
   fst (snd (gguf_validate_input E h None w)) = None"
proof -
  obtain r i w' where e: "gguf_validate_input E h info w = (r, i, w')"
    by (cases "gguf_validate_input E h info w")
  obtain r2 i2 w2 where e2: "gguf_validate_input E h None w = (r2, i2, w2)"
    by (cases "gguf_validate_input E h None w")
  show ?thesis
    using validate_frame_aux [OF e] validate_frame_aux [OF e2] by (simp add: e e2)
qed

lemma example_extract_hf:
  "extract_model_info example_env ''hf'' zero_info =
     (Raise (invalid_argument ''stoul''), zero_info\<lparr>info_model_type := ''llama''\<rparr>)"
  by (simp add: extract_model_info_def example_directories example_exists path_append_def
      Let_def)
    (simp add: example_env_def clean_key_def clean_value_def stoul_def isspace_def isdigit_def
      zero_info_def)

lemma example_validate_hf:
  "fst (gguf_validate_input example_env (heap_ptr 3) (Some zero_info)
          (created_world ''hf'' ''out.gguf'' ''f16'')) = Raise (invalid_argument ''stoul'')"
  by (simp add: gguf_validate_input_def created_world_def created_ctx_def caller_params_def
      lookup_def example_detect_hf example_extract_hf)

theorem validate_input_frame_witness:
  "fst (gguf_validate_input example_env (heap_ptr 3) (Some zero_info)
          (created_world ''hf'' ''out.gguf'' ''f16'')) = Raise (invalid_argument ''stoul'') \<and>
   heap (snd (snd (gguf_validate_input example_env (heap_ptr 3) (Some zero_info)
                     (created_world ''hf'' ''out.gguf'' ''f16'')))) =
     heap (created_world ''hf'' ''out.gguf'' ''f16'') \<and>
   ctx_at (heap (snd (snd (gguf_validate_input example_env (heap_ptr 3) (Some zero_info)
                             (created_world ''hf'' ''out.gguf'' ''f16''))))) (heap_ptr 3) =
     Some created_ctx"
  using validate_input_frame [of example_env "heap_ptr 3" "Some zero_info"
      "created_world ''hf'' ''out.gguf'' ''f16''"]
    example_validate_hf created_ctx_at [of "''hf''" "''out.gguf''" "''f16''"]
  by (simp del: ctx_at.simps cstr.simps)

text \<open>
  Claim C4 fails on the code. With an \<^verbatim>\<open>info\<close> struct to fill and a \<^verbatim>\<open>config.json\<close>
  beside the input whose \<^verbatim>\<open>hidden_size\<close> is \<^verbatim>\<open>null\<close>, \<^verbatim>\<open>std::stoul\<close> raises
  \<^verbatim>\<open>std::invalid_argument\<close> inside \<^verbatim>\<open>extract_model_info\<close>; \<^verbatim>\<open>gguf_validate_input\<close>
  guards only the size computation with \<^verbatim>\<open>try\<close>, so the exception leaves the function
  and no result code is returned.
\<close>

theorem validate_input_raises_on_unparsable_number:
  "fs_read_lines example_env ''hf/config.json'' =
     Some [''{'',
           [CHR 0x22] @ ''model_type'' @ [CHR 0x22] @ '': '' @ [CHR 0x22] @ ''llama'' @
             [CHR 0x22] @ '','',
           [CHR 0x22] @ ''hidden_size'' @ [CHR 0x22] @ '': null'',
           ''}''] \<and>
   stoul ''null'' = Inl (invalid_argument ''stoul'') \<and>
   gguf_validate_input example_env (heap_ptr 3) (Some zero_info)
     (created_world ''hf'' ''out.gguf'' ''f16'') =
     (Raise (invalid_argument ''stoul''),
      Some (zero_info\<lparr>info_model_type := ''llama''\<rparr>),
      add_events [log_cb_call 1 ''Detected format: safetensors'' nullptr]
        (created_world ''hf'' ''out.gguf'' ''f16''))"
proof -
  have l: "fs_read_lines example_env ''hf/config.json'' =
     Some [''{'',
           [CHR 0x22] @ ''model_type'' @ [CHR 0x22] @ '': '' @ [CHR 0x22] @ ''llama'' @
             [CHR 0x22] @ '','',
           [CHR 0x22] @ ''hidden_size'' @ [CHR 0x22] @ '': null'',
           ''}'']"
    by (simp add: example_env_def)
  have n: "stoul ''null'' = Inl (invalid_argument ''stoul'')"
    by (simp add: stoul_def isspace_def isdigit_def)
  have v: "gguf_validate_input example_env (heap_ptr 3) (Some zero_info)
     (created_world ''hf'' ''out.gguf'' ''f16'') =
     (Raise (invalid_argument ''stoul''),
      Some (zero_info\<lparr>info_model_type := ''llama''\<rparr>),
      add_events [log_cb_call 1 ''Detected format: safetensors'' nullptr]
        (created_world ''hf'' ''out.gguf'' ''f16''))"
    by (simp add: gguf_validate_input_def created_world_def created_ctx_def caller_params_def
        lookup_def example_detect_hf example_extract_hf ctx_log_def emit_def add_events_def)
  from l n v show ?thesis by (intro conjI)
qed

subsection \<open>What the context reads of the heap\<close>
















subsection \<open>Creation and ownership\<close>










end
